theory Spec2Isabelle
  imports Complex_Main "HOL-Library.Word"
begin

section \<open>The mClock scheduler facade of the OSD\<close>

text \<open>
  A shallow embedding of \<^verbatim>\<open>src/osd/scheduler/mClockScheduler.cc\<close>.
  Every member function becomes a function on a record of the scheduler's members.
  A failing \<^verbatim>\<open>ceph_assert\<close> aborts the process: functions that can reach one
  return a sum, \<open>Inl\<close> the abort.  A C++ \<^verbatim>\<open>double\<close> is the \<open>real\<close> it stands for
  (no NaN, no infinity); \<^verbatim>\<open>uint32_t\<close> is \<open>32 word\<close>, \<^verbatim>\<open>int\<close> is \<open>int\<close>, the unsigned
  sizes that are only compared and converted are \<open>nat\<close>.  The capacity model rounds
  as the double format does, since an integer is read off its quotient; the products
  of \<open>update_from_config\<close> are those of the reals.
\<close>

subsection \<open>The double format\<close>

text \<open>
  The rounding of a real to the nearest \<^verbatim>\<open>double\<close>, ties to the even significand:
  53 bits of significand, the exponent not below \<open>- 1022\<close>.  It is the result that a
  conversion or a division of doubles gives, for results below \<open>2 ^ 1024\<close> in
  magnitude.  \<open>bit_length n\<close> is the number of binary digits of \<open>n\<close>, and
  \<open>binary_exponent x\<close>, for positive \<open>x\<close>, the \<open>e\<close> with \<open>2 ^ e \<le> x < 2 ^ (e + 1)\<close>.
\<close>

fun bit_length :: "nat \<Rightarrow> nat" where
  "bit_length n = (if n = 0 then 0 else Suc (bit_length (n div 2)))"

declare bit_length.simps [simp del]

definition binary_exponent :: "real \<Rightarrow> int" where
  "binary_exponent x =
     (if 1 \<le> x then int (bit_length (nat \<lfloor>x\<rfloor>)) - 1
      else - int (bit_length (nat (\<lceil>1 / x\<rceil> - 1))))"

definition round_half_even :: "real \<Rightarrow> int" where
  "round_half_even y =
     (let n = \<lfloor>y\<rfloor>; d = y - of_int n
      in if d < 1 / 2 then n else if 1 / 2 < d then n + 1 else if even n then n else n + 1)"

definition ulp_of :: "real \<Rightarrow> real" where
  "ulp_of x =
     (let e = max (binary_exponent x) (- 1022)
      in if 52 \<le> e then 2 ^ nat (e - 52) else 1 / 2 ^ nat (52 - e))"

definition double_of_real :: "real \<Rightarrow> real" where
  "double_of_real x =
     (if x = 0 then 0
      else sgn x * of_int (round_half_even (\<bar>x\<bar> / ulp_of \<bar>x\<bar>)) * ulp_of \<bar>x\<bar>)"

subsection \<open>Data model\<close>

text \<open>
  Modelled from the spec: the enumeration \<^verbatim>\<open>op_scheduler_class\<close>, declared in a header.
  The data model has the four classes immediate,
  client, background_recovery and background_best_effort;
  \<^verbatim>\<open>op_scheduler_class::immediate\<close> is \<open>op_immediate\<close>, and so on.  The arrays that
  the code indexes by \<^verbatim>\<open>static_cast<size_t>\<close> of a class are functions of the class.
\<close>

datatype op_scheduler_class =
  op_background_recovery | op_background_best_effort | op_immediate | op_client

text \<open>
  Modelled from the spec: the scheduling identity and the work item, declared in
  headers.  The identity is a class and a client
  profile.  The work item has a raw cost accessor (\<^verbatim>\<open>get_cost\<close>, an \<^verbatim>\<open>int\<close>), a
  scaled cost that can be set (\<^verbatim>\<open>set_qos_cost\<close>), and the class and owner from which
  its identity is read; \<open>payload\<close> stands for the operation carried.
\<close>

record client_profile_id_t =
  client_id :: nat
  profile_id :: nat

record scheduler_id_t =
  class_id :: op_scheduler_class
  client_profile_id :: client_profile_id_t

record OpSchedulerItem =
  scheduler_class :: op_scheduler_class
  owner :: nat
  cost :: int
  qos_cost :: "32 word"
  payload :: nat

text \<open>
  Modelled from the spec: \<^verbatim>\<open>dmc::ClientInfo\<close>, which belongs to the dmclock library:
  reservation and limit in cost per second, weight unitless.
\<close>

record ClientInfo =
  reservation :: real
  weight :: real
  limit :: real

text \<open>
  Modelled from the spec: \<^verbatim>\<open>ClientAllocs\<close>, declared in the header: the reservation
  fraction \<^verbatim>\<open>res\<close>, the weight \<^verbatim>\<open>wgt\<close> and the limit fraction \<^verbatim>\<open>lim\<close> of a class
  under a profile.
\<close>

record ClientAllocs =
  res :: real
  wgt :: real
  lim_frac :: real

text \<open>
  Modelled from the spec: the members of \<^verbatim>\<open>ClientRegistry\<close>, declared in the header:
  one default info for the class client, one info for each internal class
  (\<^verbatim>\<open>internal_client_infos\<close>, a function of the class here), and the map of overrides
  by client profile.  \<^verbatim>\<open>default_min\<close> and \<^verbatim>\<open>default_max\<close> are the constants that stand
  for no minimum and no limit; the header gives their values, and here they are
  fields that no function changes.
\<close>

record ClientRegistry =
  default_min :: real
  default_max :: real
  default_external_client_info :: ClientInfo
  internal_client_infos :: "op_scheduler_class \<Rightarrow> ClientInfo"
  external_client_infos :: "client_profile_id_t \<rightharpoonup> ClientInfo"

text \<open>
  Modelled from the spec: the configuration store behind \<^verbatim>\<open>cct->_conf\<close>, a
  collaborator with typed accessors and an operation that sets a default.  The
  options are kept by their type.  A value set by the operator overrides the default;
  \<^verbatim>\<open>set_val_default\<close> replaces the default only, so that a value set by hand is
  preserved.
\<close>

record ConfigProxy =
  double_override :: "string \<rightharpoonup> real"
  double_default :: "string \<Rightarrow> real"
  uint_override :: "string \<rightharpoonup> nat"
  uint_default :: "string \<Rightarrow> nat"
  size_val :: "string \<Rightarrow> nat"
  string_val :: "string \<Rightarrow> string"

text \<open>
  The text handed to \<^verbatim>\<open>set_val_default\<close> is \<^verbatim>\<open>std::to_string\<close> of a \<^verbatim>\<open>double\<close> or of a
  \<^verbatim>\<open>uint64_t\<close>; \<open>conf_text\<close> keeps the number that is rendered.
\<close>

datatype conf_text = of_double real | of_uint64 nat

text \<open>
  The calls made on the collaborators that the scheduler does not own, oldest first:
  the writes to the configuration store and the commands given to the monitor client.
\<close>

datatype ext_call =
  set_val_default string conf_text
  | apply_changes
  | start_mon_command "string list"

datatype abort = ceph_assert_fail string

text \<open>
  Modelled from the spec: \<^verbatim>\<open>mclock_queue_t::PullReq\<close>, of the dmclock library, the three
  results of a pull: a time before which nothing is ready, nothing at all, or an item.
\<close>

datatype PullReq = is_future real | is_none | is_retn OpSchedulerItem

text \<open>
  Modelled from the spec: \<^verbatim>\<open>WorkItem\<close>, declared in a header: a variant of nothing, an
  item, or the time to wait until.
\<close>

datatype WorkItem = monostate | work_item OpSchedulerItem | wake_time real

text \<open>
  The members of \<^verbatim>\<open>mClockScheduler\<close>.  \<open>monc\<close> says whether the monitor client pointer
  is non-null.  \<open>immediate\<close> is the \<^verbatim>\<open>std::list\<close>, its front first.  \<open>scheduler\<close> is the
  state of the dmclock queue, whose operations are parameters of \<open>enqueue\<close> and
  \<open>dequeue\<close>.
\<close>

record 'q mClockScheduler =
  whoami :: int
  num_shards :: nat
  shard_id :: int
  is_rotational :: bool
  monc :: bool
  conf :: ConfigProxy
  mclock_profile :: string
  client_allocs :: "op_scheduler_class \<Rightarrow> ClientAllocs"
  osd_bandwidth_cost_per_io :: real
  osd_bandwidth_capacity_per_shard :: real
  client_registry :: ClientRegistry
  immediate :: "OpSchedulerItem list"
  scheduler :: 'q
  calls :: "ext_call list"

subsection \<open>Configuration keys\<close>

text \<open>The keys the scheduler reads and tracks, each a constant named after its text.\<close>

definition osd_mclock_scheduler_client_res :: string where
  "osd_mclock_scheduler_client_res = ''osd_mclock_scheduler_client_res''"

definition osd_mclock_scheduler_client_wgt :: string where
  "osd_mclock_scheduler_client_wgt = ''osd_mclock_scheduler_client_wgt''"

definition osd_mclock_scheduler_client_lim :: string where
  "osd_mclock_scheduler_client_lim = ''osd_mclock_scheduler_client_lim''"

definition osd_mclock_scheduler_background_recovery_res :: string where
  "osd_mclock_scheduler_background_recovery_res = ''osd_mclock_scheduler_background_recovery_res''"

definition osd_mclock_scheduler_background_recovery_wgt :: string where
  "osd_mclock_scheduler_background_recovery_wgt = ''osd_mclock_scheduler_background_recovery_wgt''"

definition osd_mclock_scheduler_background_recovery_lim :: string where
  "osd_mclock_scheduler_background_recovery_lim = ''osd_mclock_scheduler_background_recovery_lim''"

definition osd_mclock_scheduler_background_best_effort_res :: string where
  "osd_mclock_scheduler_background_best_effort_res = ''osd_mclock_scheduler_background_best_effort_res''"

definition osd_mclock_scheduler_background_best_effort_wgt :: string where
  "osd_mclock_scheduler_background_best_effort_wgt = ''osd_mclock_scheduler_background_best_effort_wgt''"

definition osd_mclock_scheduler_background_best_effort_lim :: string where
  "osd_mclock_scheduler_background_best_effort_lim = ''osd_mclock_scheduler_background_best_effort_lim''"

definition osd_mclock_max_capacity_iops_hdd :: string where
  "osd_mclock_max_capacity_iops_hdd = ''osd_mclock_max_capacity_iops_hdd''"

definition osd_mclock_max_capacity_iops_ssd :: string where
  "osd_mclock_max_capacity_iops_ssd = ''osd_mclock_max_capacity_iops_ssd''"

definition osd_mclock_max_sequential_bandwidth_hdd :: string where
  "osd_mclock_max_sequential_bandwidth_hdd = ''osd_mclock_max_sequential_bandwidth_hdd''"

definition osd_mclock_max_sequential_bandwidth_ssd :: string where
  "osd_mclock_max_sequential_bandwidth_ssd = ''osd_mclock_max_sequential_bandwidth_ssd''"

definition osd_mclock_profile :: string where
  "osd_mclock_profile = ''osd_mclock_profile''"

subsection \<open>Configuration access\<close>

text \<open>
  Modelled from the spec: the typed accessors \<^verbatim>\<open>get_val<T>\<close> of the configuration
  store and the effect of \<^verbatim>\<open>set_val_default\<close> on it.
\<close>

definition get_val_double :: "ConfigProxy \<Rightarrow> string \<Rightarrow> real" where
  "get_val_double c k = (case double_override c k of Some v \<Rightarrow> v | None \<Rightarrow> double_default c k)"

definition get_val_uint :: "ConfigProxy \<Rightarrow> string \<Rightarrow> nat" where
  "get_val_uint c k = (case uint_override c k of Some v \<Rightarrow> v | None \<Rightarrow> uint_default c k)"

definition get_val_size :: "ConfigProxy \<Rightarrow> string \<Rightarrow> nat" where
  "get_val_size c k = size_val c k"

definition get_val_string :: "ConfigProxy \<Rightarrow> string \<Rightarrow> string" where
  "get_val_string c k = string_val c k"

fun store_default :: "string \<Rightarrow> conf_text \<Rightarrow> ConfigProxy \<Rightarrow> ConfigProxy" where
  "store_default k (of_double x) c = c\<lparr>double_default := (double_default c)(k := x)\<rparr>"
| "store_default k (of_uint64 n) c = c\<lparr>uint_default := (uint_default c)(k := n)\<rparr>"

text \<open>\<^verbatim>\<open>cct->_conf.set_val_default(key, text)\<close>: the default changes and the call is recorded.\<close>

definition conf_set_val_default ::
    "string \<Rightarrow> conf_text \<Rightarrow> 'q mClockScheduler \<Rightarrow> 'q mClockScheduler" where
  "conf_set_val_default k v s =
     s\<lparr>conf := store_default k v (conf s), calls := calls s @ [set_val_default k v]\<rparr>"

subsection \<open>ClientRegistry\<close>

text \<open>The two lambdas of \<^verbatim>\<open>update_from_config\<close>; a \<^verbatim>\<open>double\<close> is true when it is not 0.\<close>

definition get_res :: "ClientRegistry \<Rightarrow> real \<Rightarrow> real \<Rightarrow> real" where
  "get_res reg capacity_per_shard r =
     (if r \<noteq> 0 then r * capacity_per_shard else default_min reg)"

definition get_lim :: "ClientRegistry \<Rightarrow> real \<Rightarrow> real \<Rightarrow> real" where
  "get_lim reg capacity_per_shard l =
     (if l \<noteq> 0 then l * capacity_per_shard else default_max reg)"

text \<open>Modelled from the spec: \<^verbatim>\<open>ClientInfo::update\<close>, which sets the three parameters.\<close>

definition ClientInfo_update :: "real \<Rightarrow> real \<Rightarrow> real \<Rightarrow> ClientInfo" where
  "ClientInfo_update r w l = \<lparr>reservation = r, weight = w, limit = l\<rparr>"

definition update_from_config ::
    "ConfigProxy \<Rightarrow> real \<Rightarrow> ClientRegistry \<Rightarrow> ClientRegistry" where
  "update_from_config c capacity_per_shard reg =
     (let reg1 = reg\<lparr>default_external_client_info :=
            ClientInfo_update
              (get_res reg capacity_per_shard
                 (get_val_double c osd_mclock_scheduler_client_res))
              (real (get_val_uint c osd_mclock_scheduler_client_wgt))
              (get_lim reg capacity_per_shard
                 (get_val_double c osd_mclock_scheduler_client_lim))\<rparr>;
          reg2 = reg1\<lparr>internal_client_infos := (internal_client_infos reg1)
            (op_background_recovery :=
               ClientInfo_update
                 (get_res reg capacity_per_shard
                    (get_val_double c osd_mclock_scheduler_background_recovery_res))
                 (real (get_val_uint c osd_mclock_scheduler_background_recovery_wgt))
                 (get_lim reg capacity_per_shard
                    (get_val_double c osd_mclock_scheduler_background_recovery_lim)))\<rparr>
      in reg2\<lparr>internal_client_infos := (internal_client_infos reg2)
            (op_background_best_effort :=
               ClientInfo_update
                 (get_res reg capacity_per_shard
                    (get_val_double c osd_mclock_scheduler_background_best_effort_res))
                 (real (get_val_uint c osd_mclock_scheduler_background_best_effort_wgt))
                 (get_lim reg capacity_per_shard
                    (get_val_double c osd_mclock_scheduler_background_best_effort_lim)))\<rparr>)"

definition get_external_client :: "ClientRegistry \<Rightarrow> client_profile_id_t \<Rightarrow> ClientInfo" where
  "get_external_client reg cl =
     (case external_client_infos reg cl of
        None \<Rightarrow> default_external_client_info reg
      | Some info \<Rightarrow> info)"

text \<open>
  \<^verbatim>\<open>get_info\<close>.  In the default branch the classes left are the two background
  classes, whose indices lie inside \<^verbatim>\<open>internal_client_infos\<close>.
\<close>

definition get_info :: "ClientRegistry \<Rightarrow> scheduler_id_t \<Rightarrow> abort + ClientInfo" where
  "get_info reg ident =
     (case class_id ident of
        op_immediate \<Rightarrow> Inl (ceph_assert_fail ''Cannot schedule immediate'')
      | op_client \<Rightarrow> Inr (get_external_client reg (client_profile_id ident))
      | _ \<Rightarrow> Inr (internal_client_infos reg (class_id ident)))"

subsection \<open>Capacity and profile\<close>

text \<open>
  \<^verbatim>\<open>static_cast<double>\<close> of the bandwidth rounds it to a double, and each division is
  one of doubles, rounded in its turn; \<^verbatim>\<open>num_shards\<close>, a \<^verbatim>\<open>uint32_t\<close>, is a double as
  it is.  The division by \<^verbatim>\<open>num_shards\<close> is one by a number that the constructor has
  asserted to be positive.
\<close>

definition set_osd_capacity_params_from_config :: "'q mClockScheduler \<Rightarrow> 'q mClockScheduler" where
  "set_osd_capacity_params_from_config s =
     (let (bw, iops) =
            (if is_rotational s
             then (get_val_size (conf s) osd_mclock_max_sequential_bandwidth_hdd,
                   get_val_double (conf s) osd_mclock_max_capacity_iops_hdd)
             else (get_val_size (conf s) osd_mclock_max_sequential_bandwidth_ssd,
                   get_val_double (conf s) osd_mclock_max_capacity_iops_ssd));
          osd_bandwidth_capacity = max 1 bw;
          osd_iop_capacity = max 1 iops
      in s\<lparr>osd_bandwidth_cost_per_io :=
             double_of_real (double_of_real (real osd_bandwidth_capacity) / osd_iop_capacity),
           osd_bandwidth_capacity_per_shard :=
             double_of_real
               (double_of_real (real osd_bandwidth_capacity) / real (num_shards s))\<rparr>)"

definition set_mclock_profile :: "'q mClockScheduler \<Rightarrow> 'q mClockScheduler" where
  "set_mclock_profile s = s\<lparr>mclock_profile := get_val_string (conf s) osd_mclock_profile\<rparr>"

text \<open>Modelled from the spec: \<^verbatim>\<open>ClientAllocs::update\<close>, which sets the three fields.\<close>

definition ClientAllocs_update :: "real \<Rightarrow> real \<Rightarrow> real \<Rightarrow> ClientAllocs" where
  "ClientAllocs_update r w l = \<lparr>res = r, wgt = w, lim_frac = l\<rparr>"

definition set_balanced_profile_allocations :: "'q mClockScheduler \<Rightarrow> 'q mClockScheduler" where
  "set_balanced_profile_allocations s =
     s\<lparr>client_allocs := (client_allocs s)
        (op_client := ClientAllocs_update 0.4 1.0 1.0,
         op_background_recovery := ClientAllocs_update 0.4 1.0 0.7,
         op_background_best_effort := ClientAllocs_update 0.2 1.0 0.0)\<rparr>"

definition set_high_recovery_ops_profile_allocations ::
    "'q mClockScheduler \<Rightarrow> 'q mClockScheduler" where
  "set_high_recovery_ops_profile_allocations s =
     s\<lparr>client_allocs := (client_allocs s)
        (op_client := ClientAllocs_update 0.3 1.0 0.8,
         op_background_recovery := ClientAllocs_update 0.6 2.0 0.0,
         op_background_best_effort := ClientAllocs_update 0.0 1.0 0.0)\<rparr>"

definition set_high_client_ops_profile_allocations ::
    "'q mClockScheduler \<Rightarrow> 'q mClockScheduler" where
  "set_high_client_ops_profile_allocations s =
     s\<lparr>client_allocs := (client_allocs s)
        (op_client := ClientAllocs_update 0.6 5.0 0.0,
         op_background_recovery := ClientAllocs_update 0.2 1.0 0.5,
         op_background_best_effort := ClientAllocs_update 0.2 1.0 0.0)\<rparr>"

text \<open>\<^verbatim>\<open>cct->_conf.apply_changes(nullptr)\<close>, a call on the configuration store.\<close>

definition update_configuration :: "'q mClockScheduler \<Rightarrow> 'q mClockScheduler" where
  "update_configuration s = s\<lparr>calls := calls s @ [apply_changes]\<rparr>"

text \<open>\<^verbatim>\<open>uint64_t(x)\<close> of a \<^verbatim>\<open>double\<close> that is not negative drops the fraction.\<close>

definition uint64_of_double :: "real \<Rightarrow> nat" where
  "uint64_of_double x = nat \<lfloor>x\<rfloor>"

definition set_profile_config :: "'q mClockScheduler \<Rightarrow> 'q mClockScheduler" where
  "set_profile_config s =
     (if shard_id s > 0 then s
      else
        let cl = client_allocs s op_client;
            rec = client_allocs s op_background_recovery;
            best_effort = client_allocs s op_background_best_effort;
            s1 = conf_set_val_default osd_mclock_scheduler_client_res (of_double (res cl)) s;
            s2 = conf_set_val_default osd_mclock_scheduler_client_wgt
                   (of_uint64 (uint64_of_double (wgt cl))) s1;
            s3 = conf_set_val_default osd_mclock_scheduler_client_lim
                   (of_double (lim_frac cl)) s2;
            s4 = conf_set_val_default osd_mclock_scheduler_background_recovery_res
                   (of_double (res rec)) s3;
            s5 = conf_set_val_default osd_mclock_scheduler_background_recovery_wgt
                   (of_uint64 (uint64_of_double (wgt rec))) s4;
            s6 = conf_set_val_default osd_mclock_scheduler_background_recovery_lim
                   (of_double (lim_frac rec)) s5;
            s7 = conf_set_val_default osd_mclock_scheduler_background_best_effort_res
                   (of_double (res best_effort)) s6;
            s8 = conf_set_val_default osd_mclock_scheduler_background_best_effort_wgt
                   (of_uint64 (uint64_of_double (wgt best_effort))) s7;
            s9 = conf_set_val_default osd_mclock_scheduler_background_best_effort_lim
                   (of_double (lim_frac best_effort)) s8
        in update_configuration s9)"

definition enable_mclock_profile_settings ::
    "'q mClockScheduler \<Rightarrow> abort + 'q mClockScheduler" where
  "enable_mclock_profile_settings s =
     (if mclock_profile s = ''custom'' then Inr s
      else if mclock_profile s = ''balanced''
        then Inr (set_profile_config (set_balanced_profile_allocations s))
      else if mclock_profile s = ''high_recovery_ops''
        then Inr (set_profile_config (set_high_recovery_ops_profile_allocations s))
      else if mclock_profile s = ''high_client_ops''
        then Inr (set_profile_config (set_high_client_ops_profile_allocations s))
      else Inl (ceph_assert_fail ''Invalid choice of mclock profile''))"

subsection \<open>Cost and the two queues\<close>

text \<open>
  \<^verbatim>\<open>static_cast<uint32_t>\<close> of a \<^verbatim>\<open>double\<close> drops the fraction; C++ defines the result
  only when the value so truncated is below \<open>2 ^ 32\<close>.
\<close>

definition uint32_of_double :: "real \<Rightarrow> 32 word" where
  "uint32_of_double x = word_of_int \<lfloor>x\<rfloor>"

definition calc_scaled_cost :: "'q mClockScheduler \<Rightarrow> int \<Rightarrow> 32 word" where
  "calc_scaled_cost s item_cost =
     (let cst = (word_of_int (max 1 item_cost) :: 32 word);
          cost_per_io = uint32_of_double (osd_bandwidth_cost_per_io s)
      in cost_per_io + cst)"

text \<open>
  Modelled from the spec: \<^verbatim>\<open>get_scheduler_id\<close>, declared in the header, the
  classification of an item: its identity is its class and its owner.
\<close>

definition get_scheduler_id :: "OpSchedulerItem \<Rightarrow> scheduler_id_t" where
  "get_scheduler_id item =
     \<lparr>class_id = scheduler_class item,
      client_profile_id = \<lparr>client_id = owner item, profile_id = 0\<rparr>\<rparr>"

text \<open>
  \<open>enqueue\<close>; \<open>add_request\<close> is the dmclock queue's operation of that name.
  \<^verbatim>\<open>push_front\<close> puts the item before the first element of the list.
\<close>

definition enqueue ::
    "(OpSchedulerItem \<Rightarrow> scheduler_id_t \<Rightarrow> 32 word \<Rightarrow> 'q \<Rightarrow> 'q) \<Rightarrow>
     OpSchedulerItem \<Rightarrow> 'q mClockScheduler \<Rightarrow> 'q mClockScheduler" where
  "enqueue add_request item s =
     (let ident = get_scheduler_id item in
      if op_immediate = class_id ident then s\<lparr>immediate := item # immediate s\<rparr>
      else
        let cst = calc_scaled_cost s (cost item);
            item' = item\<lparr>qos_cost := cst\<rparr>
        in s\<lparr>scheduler := add_request item' ident cst (scheduler s)\<rparr>)"

text \<open>\<^verbatim>\<open>push_back\<close> puts the item after the last element of the list.\<close>

definition enqueue_front :: "OpSchedulerItem \<Rightarrow> 'q mClockScheduler \<Rightarrow> 'q mClockScheduler" where
  "enqueue_front item s = s\<lparr>immediate := immediate s @ [item]\<rparr>"

text \<open>
  \<open>dequeue\<close>; \<open>pull_request\<close> is the dmclock queue's operation, which returns its
  result and the queue's next state.  \<^verbatim>\<open>back\<close> and \<^verbatim>\<open>pop_back\<close> are only reached on a
  list that is not empty.
\<close>

definition dequeue ::
    "('q \<Rightarrow> PullReq \<times> 'q) \<Rightarrow> 'q mClockScheduler \<Rightarrow> abort + (WorkItem \<times> 'q mClockScheduler)" where
  "dequeue pull_request s =
     (if immediate s \<noteq> [] then
        Inr (work_item (last (immediate s)), s\<lparr>immediate := butlast (immediate s)\<rparr>)
      else
        let (result, q') = pull_request (scheduler s);
            s' = s\<lparr>scheduler := q'\<rparr>
        in case result of
             is_future t \<Rightarrow> Inr (wake_time t, s')
           | is_none \<Rightarrow>
               Inl (ceph_assert_fail ''Impossible, must have checked empty() first'')
           | is_retn request \<Rightarrow> Inr (work_item request, s'))"

subsection \<open>Reconfiguration\<close>

text \<open>Running on after a step that may abort.\<close>

definition and_then :: "abort + 'a \<Rightarrow> ('a \<Rightarrow> abort + 'b) \<Rightarrow> abort + 'b" where
  "and_then r f = (case r of Inl a \<Rightarrow> Inl a | Inr x \<Rightarrow> f x)"

text \<open>\<^verbatim>\<open>client_registry.update_from_config(conf, osd_bandwidth_capacity_per_shard)\<close>.
  The \<^verbatim>\<open>conf\<close> handed to \<^verbatim>\<open>handle_conf_change\<close> is the proxy \<^verbatim>\<open>cct->_conf\<close> itself.\<close>

definition client_registry_update_from_config ::
    "'q mClockScheduler \<Rightarrow> 'q mClockScheduler" where
  "client_registry_update_from_config s =
     s\<lparr>client_registry :=
         update_from_config (conf s) (osd_bandwidth_capacity_per_shard s) (client_registry s)\<rparr>"

definition qos_params :: "string list" where
  "qos_params =
     [osd_mclock_scheduler_client_res,
      osd_mclock_scheduler_client_wgt,
      osd_mclock_scheduler_client_lim,
      osd_mclock_scheduler_background_recovery_res,
      osd_mclock_scheduler_background_recovery_wgt,
      osd_mclock_scheduler_background_recovery_lim,
      osd_mclock_scheduler_background_best_effort_res,
      osd_mclock_scheduler_background_best_effort_wgt,
      osd_mclock_scheduler_background_best_effort_lim]"

text \<open>The lambda \<^verbatim>\<open>get_changed_key\<close>: the first element of \<open>qos_params\<close> that changed.\<close>

definition get_changed_key :: "string set \<Rightarrow> string option" where
  "get_changed_key changed = find (\<lambda>qp. qp \<in> changed) qos_params"

text \<open>\<^verbatim>\<open>std::to_string\<close> of an \<^verbatim>\<open>int\<close>: its decimal digits, after a minus sign if negative.\<close>

fun to_string_nat :: "nat \<Rightarrow> string" where
  "to_string_nat n =
     (if n < 10 then [''0123456789'' ! n]
      else to_string_nat (n div 10) @ [''0123456789'' ! (n mod 10)])"

declare to_string_nat.simps [simp del]

definition to_string :: "int \<Rightarrow> string" where
  "to_string i = (if i < 0 then ''-'' @ to_string_nat (nat (- i)) else to_string_nat (nat i))"

text \<open>The text of the command; \<open>CHR 0x22\<close> is the double quote.\<close>

definition quoted :: "string \<Rightarrow> string" where
  "quoted x = [CHR 0x22] @ x @ [CHR 0x22]"

definition config_rm_cmd :: "string \<Rightarrow> string \<Rightarrow> string" where
  "config_rm_cmd osd key =
     ''{'' @ quoted ''prefix'' @ '': '' @ quoted ''config rm'' @ '', ''
       @ quoted ''who'' @ '': '' @ quoted osd @ '', ''
       @ quoted ''name'' @ '': '' @ quoted key @ ''}''"

text \<open>
  The vector \<^verbatim>\<open>osds\<close> is a function-local static: one for the process, built the first
  time the branch is reached, from the \<^verbatim>\<open>whoami\<close> of the scheduler that reaches it, and
  found built by every later call, of whichever scheduler.  What it holds is fixed by
  that \<^verbatim>\<open>whoami\<close>, which is what the state of the process keeps of it: \<open>None\<close> until
  the vector is built.  \<open>handle_conf_change\<close> takes this state with the scheduler and
  returns both.
\<close>

definition osds_whoami :: "int option \<Rightarrow> 'q mClockScheduler \<Rightarrow> int" where
  "osds_whoami built s = (case built of None \<Rightarrow> whoami s | Some w \<Rightarrow> w)"

definition osds :: "int \<Rightarrow> string list" where
  "osds w = [''osd'', ''osd.'' @ to_string w]"

text \<open>One turn of the loop over \<open>osds\<close>: \<^verbatim>\<open>monc->start_mon_command(vcmd, ...)\<close>.\<close>

definition remove_key_for :: "string \<Rightarrow> 'q mClockScheduler \<Rightarrow> string \<Rightarrow> 'q mClockScheduler" where
  "remove_key_for key s osd =
     s\<lparr>calls := calls s @ [start_mon_command [config_rm_cmd osd key]]\<rparr>"

definition handle_conf_change ::
    "string set \<Rightarrow> int option \<times> 'q mClockScheduler \<Rightarrow>
     abort + (int option \<times> 'q mClockScheduler)" where
  "handle_conf_change changed p =
     (let built = fst p; s = snd p in
     and_then
       (if osd_mclock_max_capacity_iops_hdd \<in> changed \<or>
           osd_mclock_max_capacity_iops_ssd \<in> changed
        then
          and_then
            (let s1 = set_osd_capacity_params_from_config s
             in if mclock_profile s1 \<noteq> ''custom'' then enable_mclock_profile_settings s1
                else Inr s1)
            (\<lambda>s2. Inr (client_registry_update_from_config s2))
        else Inr s)
       (\<lambda>s3.
          let s4 =
                (if osd_mclock_max_sequential_bandwidth_hdd \<in> changed \<or>
                    osd_mclock_max_sequential_bandwidth_ssd \<in> changed
                 then client_registry_update_from_config
                        (set_osd_capacity_params_from_config s3)
                 else s3)
          in and_then
               (if osd_mclock_profile \<in> changed
                then
                  (let s5 = set_mclock_profile s4
                   in if mclock_profile s5 \<noteq> ''custom''
                      then and_then (enable_mclock_profile_settings s5)
                             (\<lambda>s6. Inr (client_registry_update_from_config s6))
                      else Inr s5)
                else Inr s4)
               (\<lambda>s7.
                  Inr (case get_changed_key changed of
                         Some key \<Rightarrow>
                           if mclock_profile s7 = ''custom''
                           then (built, client_registry_update_from_config s7)
                           else if shard_id s7 = 0 \<and> monc s7
                             then (Some (osds_whoami built s7),
                                   foldl (remove_key_for key) s7 (osds (osds_whoami built s7)))
                             else (built, s7)
                       | None \<Rightarrow> (built, s7)))))"

text \<open>
  The constructor, from the members given and the dmclock queue just built.  The
  members with an initialiser in the header (\<open>client_allocs\<close>, the registry) come as
  \<open>allocs0\<close> and \<open>reg0\<close>.
\<close>

definition mClockScheduler_new ::
    "ConfigProxy \<Rightarrow> int \<Rightarrow> nat \<Rightarrow> int \<Rightarrow> bool \<Rightarrow> bool \<Rightarrow>
     (op_scheduler_class \<Rightarrow> ClientAllocs) \<Rightarrow> ClientRegistry \<Rightarrow> 'q \<Rightarrow>
     abort + 'q mClockScheduler" where
  "mClockScheduler_new cct_conf whoami' num_shards' shard_id' is_rotational' monc'
       allocs0 reg0 q0 =
     (let s = \<lparr>whoami = whoami', num_shards = num_shards', shard_id = shard_id',
               is_rotational = is_rotational', monc = monc', conf = cct_conf,
               mclock_profile = [], client_allocs = allocs0,
               osd_bandwidth_cost_per_io = 0, osd_bandwidth_capacity_per_shard = 0,
               client_registry = reg0, immediate = [], scheduler = q0, calls = []\<rparr>
      in if \<not> num_shards' > 0 then Inl (ceph_assert_fail ''num_shards > 0'')
         else and_then
                (enable_mclock_profile_settings
                   (set_mclock_profile (set_osd_capacity_params_from_config s)))
                (\<lambda>s'. Inr (client_registry_update_from_config s')))"

definition get_tracked_conf_keys :: "string list" where
  "get_tracked_conf_keys =
     [osd_mclock_scheduler_client_res,
      osd_mclock_scheduler_client_wgt,
      osd_mclock_scheduler_client_lim,
      osd_mclock_scheduler_background_recovery_res,
      osd_mclock_scheduler_background_recovery_wgt,
      osd_mclock_scheduler_background_recovery_lim,
      osd_mclock_scheduler_background_best_effort_res,
      osd_mclock_scheduler_background_best_effort_wgt,
      osd_mclock_scheduler_background_best_effort_lim,
      osd_mclock_max_capacity_iops_hdd,
      osd_mclock_max_capacity_iops_ssd,
      osd_mclock_max_sequential_bandwidth_hdd,
      osd_mclock_max_sequential_bandwidth_ssd,
      osd_mclock_profile]"

subsection \<open>Terms in which the properties are stated\<close>

text \<open>
  The capacity model in closed form: the bandwidth and the IOPS capacity of the device
  kind, each raised to 1 at least, give the cost per IO and the capacity per shard.
\<close>

definition bandwidth_capacity :: "ConfigProxy \<Rightarrow> bool \<Rightarrow> nat" where
  "bandwidth_capacity c rotational =
     max 1 (get_val_size c (if rotational then osd_mclock_max_sequential_bandwidth_hdd
                            else osd_mclock_max_sequential_bandwidth_ssd))"

definition iops_capacity :: "ConfigProxy \<Rightarrow> bool \<Rightarrow> real" where
  "iops_capacity c rotational =
     max 1 (get_val_double c (if rotational then osd_mclock_max_capacity_iops_hdd
                              else osd_mclock_max_capacity_iops_ssd))"

definition cost_per_io_from :: "ConfigProxy \<Rightarrow> bool \<Rightarrow> real" where
  "cost_per_io_from c rotational =
     double_of_real
       (double_of_real (real (bandwidth_capacity c rotational)) / iops_capacity c rotational)"

definition capacity_per_shard_from :: "ConfigProxy \<Rightarrow> bool \<Rightarrow> nat \<Rightarrow> real" where
  "capacity_per_shard_from c rotational n =
     double_of_real (double_of_real (real (bandwidth_capacity c rotational)) / real n)"

text \<open>The nine defaults that \<open>set_profile_config\<close> writes, in the order it writes them.\<close>

definition profile_defaults :: "'q mClockScheduler \<Rightarrow> (string \<times> conf_text) list" where
  "profile_defaults s =
     [(osd_mclock_scheduler_client_res, of_double (res (client_allocs s op_client))),
      (osd_mclock_scheduler_client_wgt,
         of_uint64 (uint64_of_double (wgt (client_allocs s op_client)))),
      (osd_mclock_scheduler_client_lim, of_double (lim_frac (client_allocs s op_client))),
      (osd_mclock_scheduler_background_recovery_res,
         of_double (res (client_allocs s op_background_recovery))),
      (osd_mclock_scheduler_background_recovery_wgt,
         of_uint64 (uint64_of_double (wgt (client_allocs s op_background_recovery)))),
      (osd_mclock_scheduler_background_recovery_lim,
         of_double (lim_frac (client_allocs s op_background_recovery))),
      (osd_mclock_scheduler_background_best_effort_res,
         of_double (res (client_allocs s op_background_best_effort))),
      (osd_mclock_scheduler_background_best_effort_wgt,
         of_uint64 (uint64_of_double (wgt (client_allocs s op_background_best_effort)))),
      (osd_mclock_scheduler_background_best_effort_lim,
         of_double (lim_frac (client_allocs s op_background_best_effort)))]"

definition store_defaults :: "(string \<times> conf_text) list \<Rightarrow> ConfigProxy \<Rightarrow> ConfigProxy" where
  "store_defaults kvs c = foldl (\<lambda>c' (k, v). store_default k v c') c kvs"

definition default_calls :: "(string \<times> conf_text) list \<Rightarrow> ext_call list" where
  "default_calls kvs = map (\<lambda>(k, v). set_val_default k v) kvs"

text \<open>
  The request that removes \<open>key\<close> from the store of the monitor for \<open>target\<close>, with
  the text of its command written out.
\<close>

definition remove_request :: "string \<Rightarrow> string \<Rightarrow> ext_call" where
  \<open>remove_request target key =
     start_mon_command
       [''{"prefix": "config rm", "who": "'' @ target @ ''", "name": "'' @ key @ ''"}'']\<close>

text \<open>
  The four conditionals of \<open>handle_conf_change\<close>, each alone: the reaction to an IOPS
  key, to a bandwidth key, to the key of the profile name and to a QoS key.
\<close>

definition iops_part :: "string set \<Rightarrow> 'q mClockScheduler \<Rightarrow> abort + 'q mClockScheduler" where
  "iops_part changed s =
     (if osd_mclock_max_capacity_iops_hdd \<in> changed \<or>
         osd_mclock_max_capacity_iops_ssd \<in> changed
      then
        and_then
          (let s1 = set_osd_capacity_params_from_config s
           in if mclock_profile s1 \<noteq> ''custom'' then enable_mclock_profile_settings s1
              else Inr s1)
          (\<lambda>s2. Inr (client_registry_update_from_config s2))
      else Inr s)"

definition bandwidth_part :: "string set \<Rightarrow> 'q mClockScheduler \<Rightarrow> 'q mClockScheduler" where
  "bandwidth_part changed s =
     (if osd_mclock_max_sequential_bandwidth_hdd \<in> changed \<or>
         osd_mclock_max_sequential_bandwidth_ssd \<in> changed
      then client_registry_update_from_config (set_osd_capacity_params_from_config s)
      else s)"

definition profile_part :: "string set \<Rightarrow> 'q mClockScheduler \<Rightarrow> abort + 'q mClockScheduler" where
  "profile_part changed s =
     (if osd_mclock_profile \<in> changed
      then
        (let s5 = set_mclock_profile s
         in if mclock_profile s5 \<noteq> ''custom''
            then and_then (enable_mclock_profile_settings s5)
                   (\<lambda>s6. Inr (client_registry_update_from_config s6))
            else Inr s5)
      else Inr s)"

definition qos_part ::
    "string set \<Rightarrow> int option \<Rightarrow> 'q mClockScheduler \<Rightarrow> int option \<times> 'q mClockScheduler" where
  "qos_part changed built s =
     (case get_changed_key changed of
        Some key \<Rightarrow>
          if mclock_profile s = ''custom''
          then (built, client_registry_update_from_config s)
          else if shard_id s = 0 \<and> monc s
            then (Some (osds_whoami built s),
                  foldl (remove_key_for key) s (osds (osds_whoami built s)))
            else (built, s)
      | None \<Rightarrow> (built, s))"

text \<open>The calls that write to the configuration store, as against those to the monitor.\<close>

fun conf_write :: "ext_call \<Rightarrow> bool" where
  "conf_write (set_val_default k v) = True"
| "conf_write apply_changes = True"
| "conf_write (start_mon_command cmd) = False"

text \<open>
  The steps of a reaction, each as what it leaves: the capacity model recomputed from
  the configuration; the allocations of the active profile, the table of the three
  built-in profiles laid over the allocations there were; the nine defaults written to
  the configuration and applied.
\<close>

definition capacity_recomputed :: "'q mClockScheduler \<Rightarrow> 'q mClockScheduler" where
  "capacity_recomputed s =
     s\<lparr>osd_bandwidth_cost_per_io := cost_per_io_from (conf s) (is_rotational s),
       osd_bandwidth_capacity_per_shard :=
         capacity_per_shard_from (conf s) (is_rotational s) (num_shards s)\<rparr>"

definition with_profile_table ::
    "string \<Rightarrow> (op_scheduler_class \<Rightarrow> ClientAllocs) \<Rightarrow> op_scheduler_class \<Rightarrow> ClientAllocs"
    where
  "with_profile_table p allocs =
     (if p = ''balanced''
      then allocs
        (op_client := \<lparr>res = 0.4, wgt = 1, lim_frac = 1\<rparr>,
         op_background_recovery := \<lparr>res = 0.4, wgt = 1, lim_frac = 0.7\<rparr>,
         op_background_best_effort := \<lparr>res = 0.2, wgt = 1, lim_frac = 0\<rparr>)
      else if p = ''high_recovery_ops''
      then allocs
        (op_client := \<lparr>res = 0.3, wgt = 1, lim_frac = 0.8\<rparr>,
         op_background_recovery := \<lparr>res = 0.6, wgt = 2, lim_frac = 0\<rparr>,
         op_background_best_effort := \<lparr>res = 0, wgt = 1, lim_frac = 0\<rparr>)
      else if p = ''high_client_ops''
      then allocs
        (op_client := \<lparr>res = 0.6, wgt = 5, lim_frac = 0\<rparr>,
         op_background_recovery := \<lparr>res = 0.2, wgt = 1, lim_frac = 0.5\<rparr>,
         op_background_best_effort := \<lparr>res = 0.2, wgt = 1, lim_frac = 0\<rparr>)
      else allocs)"

definition allocations_recomputed :: "'q mClockScheduler \<Rightarrow> 'q mClockScheduler" where
  "allocations_recomputed s =
     s\<lparr>client_allocs := with_profile_table (mclock_profile s) (client_allocs s)\<rparr>"

definition defaults_published :: "'q mClockScheduler \<Rightarrow> 'q mClockScheduler" where
  "defaults_published s =
     s\<lparr>conf := store_defaults (profile_defaults s) (conf s),
       calls := calls s @ default_calls (profile_defaults s) @ [apply_changes]\<rparr>"

text \<open>
  A state and a later one of the same scheduler: the identity of the shard is the
  same, and the calls made in between are writes to the configuration.
\<close>

definition same_shard :: "'q mClockScheduler \<Rightarrow> 'q mClockScheduler \<Rightarrow> bool" where
  "same_shard s t \<longleftrightarrow> shard_id t = shard_id s \<and> monc t = monc s \<and> whoami t = whoami s"

definition conf_written :: "'q mClockScheduler \<Rightarrow> 'q mClockScheduler \<Rightarrow> ext_call list \<Rightarrow> bool" where
  "conf_written s t ws \<longleftrightarrow> calls t = calls s @ ws \<and> list_all conf_write ws"

text \<open>
  The profile in force when the QoS keys are looked at: the one that the notification
  selects, if it names the key of the profile, and the active one otherwise.
\<close>

definition profile_in_force :: "string set \<Rightarrow> 'q mClockScheduler \<Rightarrow> string" where
  "profile_in_force changed s =
     (if osd_mclock_profile \<in> changed then get_val_string (conf s) osd_mclock_profile
      else mclock_profile s)"

text \<open>The names of the profiles: the three built in, and those with \<^verbatim>\<open>custom\<close>.\<close>

definition built_in_profiles :: "string set" where
  "built_in_profiles = {''balanced'', ''high_recovery_ops'', ''high_client_ops''}"

definition profile_names :: "string set" where
  "profile_names = insert ''custom'' built_in_profiles"

text \<open>The bypass queue in the order in which it is served: the back of the list first.\<close>

definition bypass_queue :: "'q mClockScheduler \<Rightarrow> OpSchedulerItem list" where
  "bypass_queue s = rev (immediate s)"

text \<open>The calls recorded once a run has returned; none if it aborted.\<close>

definition calls_of :: "abort + 'q mClockScheduler \<Rightarrow> ext_call list option" where
  "calls_of r = (case r of Inl a \<Rightarrow> None | Inr s \<Rightarrow> Some (calls s))"

definition calls_after ::
    "abort + (int option \<times> 'q mClockScheduler) \<Rightarrow> ext_call list option" where
  "calls_after r = (case r of Inl a \<Rightarrow> None | Inr p \<Rightarrow> Some (calls (snd p)))"

subsection \<open>Concrete inputs\<close>

text \<open>
  A rotational device of bandwidth 200 and 100 IOPS under the profile \<^verbatim>\<open>balanced\<close>:
  shard 0 of one, of OSD 3, with a monitor client.  The dmclock queue is stood in for
  by a list served first in, first out.  \<open>example_scheduler\<close> is the scheduler that
  the constructor builds from these.
\<close>

definition example_conf :: ConfigProxy where
  "example_conf =
     \<lparr>double_override = Map.empty,
      double_default = (\<lambda>k. if k = osd_mclock_max_capacity_iops_hdd then 100 else 0),
      uint_override = Map.empty,
      uint_default = (\<lambda>k. 1),
      size_val = (\<lambda>k. 200),
      string_val = (\<lambda>k. ''balanced'')\<rparr>"

definition example_registry :: ClientRegistry where
  "example_registry =
     \<lparr>default_min = 0, default_max = 1000000,
      default_external_client_info = ClientInfo_update 1 1 1,
      internal_client_infos = (\<lambda>c. ClientInfo_update 1 1 1),
      external_client_infos = Map.empty\<rparr>"

definition example_members :: "int \<Rightarrow> OpSchedulerItem list mClockScheduler" where
  "example_members shard =
     \<lparr>whoami = 3, num_shards = 1, shard_id = shard, is_rotational = True, monc = True,
      conf = example_conf, mclock_profile = [],
      client_allocs = (\<lambda>c. ClientAllocs_update 1 1 1),
      osd_bandwidth_cost_per_io = 0, osd_bandwidth_capacity_per_shard = 0,
      client_registry = example_registry, immediate = [], scheduler = [], calls = []\<rparr>"

definition example_on_shard :: "int \<Rightarrow> OpSchedulerItem list mClockScheduler" where
  "example_on_shard shard =
     client_registry_update_from_config
       (set_profile_config
          (set_balanced_profile_allocations
             (set_mclock_profile
                (set_osd_capacity_params_from_config (example_members shard)))))"

definition example_scheduler :: "OpSchedulerItem list mClockScheduler" where
  "example_scheduler = example_on_shard 0"

definition example_item :: "op_scheduler_class \<Rightarrow> nat \<Rightarrow> OpSchedulerItem" where
  "example_item c n = \<lparr>scheduler_class = c, owner = 1, cost = 10, qos_cost = 0, payload = n\<rparr>"

definition fifo_add_request ::
    "OpSchedulerItem \<Rightarrow> scheduler_id_t \<Rightarrow> 32 word \<Rightarrow> OpSchedulerItem list \<Rightarrow> OpSchedulerItem list"
    where
  "fifo_add_request item ident cst q = q @ [item]"

definition fifo_pull_request :: "OpSchedulerItem list \<Rightarrow> PullReq \<times> OpSchedulerItem list" where
  "fifo_pull_request q = (case q of [] \<Rightarrow> (is_none, []) | x # xs \<Rightarrow> (is_retn x, xs))"

text \<open>A scheduler of the same process that has another \<^verbatim>\<open>whoami\<close>.\<close>

definition second_scheduler :: "OpSchedulerItem list mClockScheduler" where
  "second_scheduler = example_scheduler\<lparr>whoami := 7\<rparr>"

text \<open>
  The custom profile, with a reservation of a quarter set by hand for the clients.
\<close>

definition custom_scheduler :: "OpSchedulerItem list mClockScheduler" where
  "custom_scheduler =
     example_scheduler
       \<lparr>mclock_profile := ''custom'',
        conf := (conf example_scheduler)
          \<lparr>double_override := [osd_mclock_scheduler_client_res \<mapsto> 1 / 4]\<rparr>\<rparr>"

text \<open>The example scheduler after the operator has set the bandwidth to 400.\<close>

definition doubled_setting :: "OpSchedulerItem list mClockScheduler" where
  "doubled_setting =
     example_scheduler
       \<lparr>conf := (conf example_scheduler)
          \<lparr>size_val := (size_val (conf example_scheduler))
             (osd_mclock_max_sequential_bandwidth_hdd := 400)\<rparr>\<rparr>"

text \<open>
  The example scheduler after the operator has set the IOPS capacity to the double next
  to 1.6, the bandwidth being 200.
\<close>

definition uneven_setting :: "OpSchedulerItem list mClockScheduler" where
  "uneven_setting =
     example_scheduler
       \<lparr>conf := (conf example_scheduler)
          \<lparr>double_override :=
             [osd_mclock_max_capacity_iops_hdd \<mapsto>
                3602879701896397 / 2251799813685248]\<rparr>\<rparr>"

definition uneven_scheduler :: "OpSchedulerItem list mClockScheduler" where
  "uneven_scheduler = set_osd_capacity_params_from_config uneven_setting"

text \<open>
  The same scheduler after the operator has set the bandwidth of the device to
  \<open>2 ^ 32 - 1\<close> and its IOPS capacity to 1.
\<close>

definition wide_conf :: "ConfigProxy \<Rightarrow> ConfigProxy" where
  "wide_conf c =
     c\<lparr>size_val := (size_val c)(osd_mclock_max_sequential_bandwidth_hdd := 4294967295),
       double_override := (double_override c)(osd_mclock_max_capacity_iops_hdd \<mapsto> 1)\<rparr>"

definition wide_scheduler :: "OpSchedulerItem list mClockScheduler" where
  "wide_scheduler =
     set_osd_capacity_params_from_config
       (example_scheduler\<lparr>conf := wide_conf (conf example_scheduler)\<rparr>)"

section \<open>Properties\<close>

subsection \<open>Doubles\<close>

text \<open>
  \<open>bit_length\<close> counts the binary digits, the rounding is to a nearest multiple of the
  unit in the last place, and a natural number below \<open>2 ^ 53\<close> is a double.
\<close>

lemma bit_length_upper: "n < 2 ^ bit_length n"
proof (induction n rule: bit_length.induct)
  case (1 n)
  show ?case
  proof (cases "n = 0")
    case True
    then show ?thesis by (simp add: bit_length.simps)
  next
    case False
    from 1 [OF False] have "n div 2 < 2 ^ bit_length (n div 2)" .
    then have "n < 2 * 2 ^ bit_length (n div 2)" by linarith
    then show ?thesis
      using False by (subst bit_length.simps) simp
  qed
qed

lemma bit_length_lower: "n \<noteq> 0 \<Longrightarrow> 2 ^ (bit_length n - 1) \<le> n"
proof (induction n rule: bit_length.induct)
  case (1 n)
  show ?case
  proof (cases "n div 2 = 0")
    case True
    with 1(2) have "n = 1" by linarith
    then show ?thesis by (simp add: bit_length.simps)
  next
    case False
    from 1(1) [OF 1(2) False] have a: "2 ^ (bit_length (n div 2) - 1) \<le> n div 2" .
    have "bit_length (n div 2) \<noteq> 0"
      using False by (subst bit_length.simps) simp
    then have "(2 :: nat) ^ bit_length (n div 2) = 2 * 2 ^ (bit_length (n div 2) - 1)"
      by (cases "bit_length (n div 2)") simp_all
    with a have "2 ^ bit_length (n div 2) \<le> n" by linarith
    then show ?thesis
      using 1(2) by (subst bit_length.simps) simp
  qed
qed

lemma bit_length_le: "n < 2 ^ k \<Longrightarrow> bit_length n \<le> k"
proof (rule ccontr)
  assume a: "n < 2 ^ k" and "\<not> bit_length n \<le> k"
  then have k: "k \<le> bit_length n - 1"
    by simp
  have "n \<noteq> 0"
  proof
    assume "n = 0"
    then have "bit_length n = 0" by (simp add: bit_length.simps)
    with \<open>\<not> bit_length n \<le> k\<close> show False by simp
  qed
  from bit_length_lower [OF this] have "(2 :: nat) ^ k \<le> n"
    using power_increasing [OF k, of "2 :: nat"] by linarith
  with a show False by simp
qed

lemma round_half_even_of_int: "round_half_even (of_int m) = m"
  by (simp add: round_half_even_def)

lemma round_half_even_near: "\<bar>of_int (round_half_even y) - y\<bar> \<le> 1 / 2"
  unfolding round_half_even_def Let_def
  by (auto simp: abs_if) linarith+

lemma ulp_of_pos: "0 < ulp_of x"
  by (simp add: ulp_of_def Let_def)

lemma double_of_real_near: "\<bar>double_of_real x - x\<bar> \<le> ulp_of \<bar>x\<bar> / 2"
proof (cases "x = 0")
  case True
  then show ?thesis
    using ulp_of_pos [of 0] by (simp add: double_of_real_def)
next
  case False
  let ?u = "ulp_of \<bar>x\<bar>"
  let ?k = "round_half_even (\<bar>x\<bar> / ?u)"
  have u: "0 < ?u" by (rule ulp_of_pos)
  have "\<bar>of_int ?k - \<bar>x\<bar> / ?u\<bar> \<le> 1 / 2"
    by (rule round_half_even_near)
  then have "\<bar>of_int ?k - \<bar>x\<bar> / ?u\<bar> * ?u \<le> 1 / 2 * ?u"
    using u by (intro mult_right_mono) simp_all
  then have "\<bar>(of_int ?k - \<bar>x\<bar> / ?u) * ?u\<bar> \<le> ?u / 2"
    using u by (simp add: abs_mult)
  then have k: "\<bar>of_int ?k * ?u - \<bar>x\<bar>\<bar> \<le> ?u / 2"
    using u by (simp add: algebra_simps)
  have "double_of_real x - x = sgn x * (of_int ?k * ?u - \<bar>x\<bar>)"
    using False by (simp add: double_of_real_def algebra_simps sgn_if abs_if)
  then have "\<bar>double_of_real x - x\<bar> = \<bar>of_int ?k * ?u - \<bar>x\<bar>\<bar>"
    using False by (simp add: abs_mult sgn_if)
  with k show ?thesis by simp
qed

lemma double_of_real_nat:
  assumes "n < 2 ^ 53"
  shows "double_of_real (real n) = real n"
proof (cases "n = 0")
  case True
  then show ?thesis by (simp add: double_of_real_def)
next
  case False
  then have x: "1 \<le> real n" by simp
  have fl: "nat \<lfloor>real n\<rfloor> = n" by simp
  have bl: "bit_length n \<le> 53" using assms by (rule bit_length_le)
  have bp: "bit_length n \<noteq> 0" using False by (subst bit_length.simps) simp
  define d where "d = 53 - bit_length n"
  have e: "binary_exponent \<bar>real n\<bar> = 52 - int d"
    using x bl bp by (simp add: binary_exponent_def fl d_def)
  have d: "d \<le> 52"
    using bp by (simp add: d_def)
  have u: "ulp_of \<bar>real n\<bar> = 1 / 2 ^ d"
    unfolding ulp_of_def e Let_def using d by (cases "d = 0") (simp_all add: max_def)
  from u have u': "ulp_of (real n) = 1 / 2 ^ d"
    by simp
  have "\<bar>real n\<bar> / ulp_of \<bar>real n\<bar> = of_int (int (n * 2 ^ d))"
    by (simp add: u')
  then have "round_half_even (\<bar>real n\<bar> / ulp_of \<bar>real n\<bar>) = int (n * 2 ^ d)"
    by (simp only: round_half_even_of_int)
  then show ?thesis
    using False by (simp add: double_of_real_def u')
qed

text \<open>
  From \<open>2 ^ 53\<close> to \<open>2 ^ 54\<close> the doubles are the even numbers: an odd number is
  half way between two of them, and goes to the one with the even significand.  One
  tenth is not a double.
\<close>

lemma double_of_real_ties:
  "double_of_real 9007199254740993 = 9007199254740992"
  "double_of_real 9007199254740995 = 9007199254740996"
  "double_of_real (1 / 10) = 3602879701896397 / 36028797018963968"
  by (simp_all add: double_of_real_def ulp_of_def binary_exponent_def round_half_even_def
      bit_length.simps Let_def)

lemma double_of_real_200: "double_of_real 200 = 200"
  using double_of_real_nat [of 200] by simp

lemma double_of_real_2: "double_of_real 2 = 2"
  using double_of_real_nat [of 2] by simp

subsection \<open>Each operation as an update of the members\<close>

lemma set_osd_capacity_params_from_config_eq:
  "set_osd_capacity_params_from_config s =
     s\<lparr>osd_bandwidth_cost_per_io := cost_per_io_from (conf s) (is_rotational s),
       osd_bandwidth_capacity_per_shard :=
         capacity_per_shard_from (conf s) (is_rotational s) (num_shards s)\<rparr>"
  by (cases "is_rotational s")
    (simp_all add: set_osd_capacity_params_from_config_def cost_per_io_from_def
      capacity_per_shard_from_def bandwidth_capacity_def iops_capacity_def Let_def)

lemma conf_set_val_default_fold:
  "foldl (\<lambda>st (k, v). conf_set_val_default k v st) s kvs =
     s\<lparr>conf := store_defaults kvs (conf s), calls := calls s @ default_calls kvs\<rparr>"
proof (induction kvs arbitrary: s)
  case Nil
  show ?case by (simp add: store_defaults_def default_calls_def)
next
  case (Cons kv kvs)
  obtain k v where kv: "kv = (k, v)" by (cases kv)
  let ?f = "\<lambda>st (k, v). conf_set_val_default k v st"
  let ?s1 = "conf_set_val_default k v s"
  have "foldl ?f s (kv # kvs) = foldl ?f ?s1 kvs"
    by (simp add: kv)
  also have "\<dots> = ?s1\<lparr>conf := store_defaults kvs (conf ?s1),
                         calls := calls ?s1 @ default_calls kvs\<rparr>"
    by (rule Cons.IH)
  also have "\<dots> = s\<lparr>conf := store_defaults (kv # kvs) (conf s),
                       calls := calls s @ default_calls (kv # kvs)\<rparr>"
    by (simp add: kv conf_set_val_default_def store_defaults_def default_calls_def)
  finally show ?case .
qed

lemma set_profile_config_fold:
  "set_profile_config s =
     (if shard_id s > 0 then s
      else update_configuration
             (foldl (\<lambda>st (k, v). conf_set_val_default k v st) s (profile_defaults s)))"
  by (simp add: set_profile_config_def Let_def profile_defaults_def)

lemma set_profile_config_eq:
  "set_profile_config s =
     (if shard_id s > 0 then s
      else s\<lparr>conf := store_defaults (profile_defaults s) (conf s),
             calls := calls s @ default_calls (profile_defaults s) @ [apply_changes]\<rparr>)"
  by (simp add: set_profile_config_fold conf_set_val_default_fold update_configuration_def)

lemma remove_keys_eq:
  "foldl (remove_key_for key) s (osds w) =
     s\<lparr>calls := calls s @
            [remove_request ''osd'' key, remove_request (''osd.'' @ to_string w) key]\<rparr>"
  by (simp add: osds_def remove_key_for_def remove_request_def config_rm_cmd_def quoted_def)

lemma get_res_frame: "default_min r1 = default_min r2 \<Longrightarrow> get_res r1 = get_res r2"
  by (simp add: get_res_def fun_eq_iff)

lemma get_lim_frame: "default_max r1 = default_max r2 \<Longrightarrow> get_lim r1 = get_lim r2"
  by (simp add: get_lim_def fun_eq_iff)

lemma update_from_config_default_min:
  "default_min (update_from_config c cap reg) = default_min reg"
  by (simp add: update_from_config_def Let_def)

lemma update_from_config_default_max:
  "default_max (update_from_config c cap reg) = default_max reg"
  by (simp add: update_from_config_def Let_def)

lemma update_from_config_absorb:
  "update_from_config c cap (update_from_config c' cap' reg) = update_from_config c cap reg"
proof -
  let ?r = "update_from_config c' cap' reg"
  have a: "get_res ?r = get_res reg"
    by (rule get_res_frame) (rule update_from_config_default_min)
  have b: "get_lim ?r = get_lim reg"
    by (rule get_lim_frame) (rule update_from_config_default_max)
  show ?thesis
    unfolding update_from_config_def [of c cap ?r] a b
    by (simp add: update_from_config_def Let_def)
qed

lemma store_defaults_size: "get_val_size (store_defaults kvs c) k = get_val_size c k"
proof (induction kvs arbitrary: c)
  case Nil
  show ?case by (simp add: store_defaults_def)
next
  case (Cons kv kvs)
  obtain k' v where kv: "kv = (k', v)" by (cases kv)
  have "get_val_size (store_default k' v c) k = get_val_size c k"
    by (cases v) (simp_all add: get_val_size_def)
  with Cons.IH [of "store_default k' v c"] show ?case
    by (simp add: store_defaults_def kv)
qed

lemma store_defaults_string: "get_val_string (store_defaults kvs c) k = get_val_string c k"
proof (induction kvs arbitrary: c)
  case Nil
  show ?case by (simp add: store_defaults_def)
next
  case (Cons kv kvs)
  obtain k' v where kv: "kv = (k', v)" by (cases kv)
  have "get_val_string (store_default k' v c) k = get_val_string c k"
    by (cases v) (simp_all add: get_val_string_def)
  with Cons.IH [of "store_default k' v c"] show ?case
    by (simp add: store_defaults_def kv)
qed

lemma store_defaults_double:
  "k \<notin> fst ` set kvs \<Longrightarrow> get_val_double (store_defaults kvs c) k = get_val_double c k"
proof (induction kvs arbitrary: c)
  case Nil
  show ?case by (simp add: store_defaults_def)
next
  case (Cons kv kvs)
  obtain k' v where kv: "kv = (k', v)" by (cases kv)
  from Cons.prems kv have ne: "k \<noteq> k'" and rest: "k \<notin> fst ` set kvs" by auto
  from ne have "get_val_double (store_default k' v c) k = get_val_double c k"
    by (cases v) (simp_all add: get_val_double_def split: option.split)
  with Cons.IH [OF rest, of "store_default k' v c"] show ?case
    by (simp add: store_defaults_def kv)
qed

lemma refresh_refresh:
  "client_registry_update_from_config (client_registry_update_from_config s) =
     client_registry_update_from_config s"
  by (simp add: client_registry_update_from_config_def update_from_config_absorb)

lemma set_profile_config_client_allocs:
  "client_allocs (set_profile_config s) = client_allocs s"
  by (simp add: set_profile_config_eq)

subsection \<open>The configuration keys\<close>

lemma profile_defaults_keys: "map fst (profile_defaults s) = qos_params"
  by (simp add: profile_defaults_def qos_params_def)

lemma tracked_keys_distinct: "distinct get_tracked_conf_keys"
  unfolding get_tracked_conf_keys_def
    osd_mclock_scheduler_client_res_def osd_mclock_scheduler_client_wgt_def
    osd_mclock_scheduler_client_lim_def osd_mclock_scheduler_background_recovery_res_def
    osd_mclock_scheduler_background_recovery_wgt_def
    osd_mclock_scheduler_background_recovery_lim_def
    osd_mclock_scheduler_background_best_effort_res_def
    osd_mclock_scheduler_background_best_effort_wgt_def
    osd_mclock_scheduler_background_best_effort_lim_def
    osd_mclock_max_capacity_iops_hdd_def osd_mclock_max_capacity_iops_ssd_def
    osd_mclock_max_sequential_bandwidth_hdd_def osd_mclock_max_sequential_bandwidth_ssd_def
    osd_mclock_profile_def
  by simp

lemma tracked_keys_split:
  "get_tracked_conf_keys =
     qos_params @
     [osd_mclock_max_capacity_iops_hdd, osd_mclock_max_capacity_iops_ssd,
      osd_mclock_max_sequential_bandwidth_hdd, osd_mclock_max_sequential_bandwidth_ssd,
      osd_mclock_profile]"
  by (simp add: get_tracked_conf_keys_def qos_params_def)

lemma other_keys_not_qos:
  "osd_mclock_max_capacity_iops_hdd \<notin> set qos_params"
  "osd_mclock_max_capacity_iops_ssd \<notin> set qos_params"
  "osd_mclock_max_sequential_bandwidth_hdd \<notin> set qos_params"
  "osd_mclock_max_sequential_bandwidth_ssd \<notin> set qos_params"
  "osd_mclock_profile \<notin> set qos_params"
  using tracked_keys_distinct unfolding tracked_keys_split by auto

lemma other_keys_neq:
  "osd_mclock_max_capacity_iops_hdd \<noteq> osd_mclock_max_capacity_iops_ssd"
  "osd_mclock_max_capacity_iops_hdd \<noteq> osd_mclock_max_sequential_bandwidth_hdd"
  "osd_mclock_max_capacity_iops_hdd \<noteq> osd_mclock_max_sequential_bandwidth_ssd"
  "osd_mclock_max_capacity_iops_hdd \<noteq> osd_mclock_profile"
  "osd_mclock_max_capacity_iops_ssd \<noteq> osd_mclock_max_capacity_iops_hdd"
  "osd_mclock_max_capacity_iops_ssd \<noteq> osd_mclock_max_sequential_bandwidth_hdd"
  "osd_mclock_max_capacity_iops_ssd \<noteq> osd_mclock_max_sequential_bandwidth_ssd"
  "osd_mclock_max_capacity_iops_ssd \<noteq> osd_mclock_profile"
  "osd_mclock_max_sequential_bandwidth_hdd \<noteq> osd_mclock_max_capacity_iops_hdd"
  "osd_mclock_max_sequential_bandwidth_hdd \<noteq> osd_mclock_max_capacity_iops_ssd"
  "osd_mclock_max_sequential_bandwidth_hdd \<noteq> osd_mclock_max_sequential_bandwidth_ssd"
  "osd_mclock_max_sequential_bandwidth_hdd \<noteq> osd_mclock_profile"
  "osd_mclock_max_sequential_bandwidth_ssd \<noteq> osd_mclock_max_capacity_iops_hdd"
  "osd_mclock_max_sequential_bandwidth_ssd \<noteq> osd_mclock_max_capacity_iops_ssd"
  "osd_mclock_max_sequential_bandwidth_ssd \<noteq> osd_mclock_max_sequential_bandwidth_hdd"
  "osd_mclock_max_sequential_bandwidth_ssd \<noteq> osd_mclock_profile"
  "osd_mclock_profile \<noteq> osd_mclock_max_capacity_iops_hdd"
  "osd_mclock_profile \<noteq> osd_mclock_max_capacity_iops_ssd"
  "osd_mclock_profile \<noteq> osd_mclock_max_sequential_bandwidth_hdd"
  "osd_mclock_profile \<noteq> osd_mclock_max_sequential_bandwidth_ssd"
  using tracked_keys_distinct unfolding tracked_keys_split by auto

lemma untracked:
  assumes "changed \<inter> set get_tracked_conf_keys \<subseteq> set qos_params"
  shows "osd_mclock_max_capacity_iops_hdd \<notin> changed"
    "osd_mclock_max_capacity_iops_ssd \<notin> changed"
    "osd_mclock_max_sequential_bandwidth_hdd \<notin> changed"
    "osd_mclock_max_sequential_bandwidth_ssd \<notin> changed"
    "osd_mclock_profile \<notin> changed"
  using assms other_keys_not_qos unfolding tracked_keys_split by auto

lemma cost_per_io_from_store_defaults:
  "cost_per_io_from (store_defaults (profile_defaults s) c) r = cost_per_io_from c r"
proof -
  have "fst ` set (profile_defaults s) = set qos_params"
    using profile_defaults_keys [of s] by (metis set_map)
  then show ?thesis
    by (simp add: cost_per_io_from_def bandwidth_capacity_def iops_capacity_def
        store_defaults_size store_defaults_double other_keys_not_qos)
qed

lemma capacity_per_shard_from_store_defaults:
  "capacity_per_shard_from (store_defaults kvs c) r n = capacity_per_shard_from c r n"
  by (simp add: capacity_per_shard_from_def bandwidth_capacity_def store_defaults_size)

lemma get_changed_key_None: "changed \<inter> set qos_params = {} \<Longrightarrow> get_changed_key changed = None"
  by (auto simp: get_changed_key_def find_None_iff)

lemma find_single: "x \<in> set xs \<Longrightarrow> find (\<lambda>y. y = x) xs = Some x"
  by (induction xs) auto

lemma get_changed_key_single: "key \<in> set qos_params \<Longrightarrow> get_changed_key {key} = Some key"
  by (simp add: get_changed_key_def find_single)

lemma get_changed_key_without_iops:
  "get_changed_key (changed - {osd_mclock_max_capacity_iops_hdd, osd_mclock_max_capacity_iops_ssd}) =
     get_changed_key changed"
  unfolding get_changed_key_def
  using other_keys_not_qos by (intro find_cong) auto

subsection \<open>The example scheduler\<close>

lemma example_constructed:
  "mClockScheduler_new example_conf 3 1 n True True (\<lambda>c. ClientAllocs_update 1 1 1)
     example_registry [] = Inr (example_on_shard n)"
  by (simp add: mClockScheduler_new_def example_on_shard_def
      example_members_def and_then_def enable_mclock_profile_settings_def
      set_mclock_profile_def set_osd_capacity_params_from_config_eq
      get_val_string_def example_conf_def)

lemma example_fields:
  "shard_id (example_on_shard n) = n"
  "whoami (example_on_shard n) = 3"
  "monc (example_on_shard n) = True"
  "mclock_profile (example_on_shard n) = ''balanced''"
  "immediate (example_on_shard n) = []"
  "scheduler (example_on_shard n) = []"
  "is_rotational (example_on_shard n) = True"
  "num_shards (example_on_shard n) = 1"
  by (simp_all add: example_on_shard_def client_registry_update_from_config_def
      set_profile_config_eq set_balanced_profile_allocations_def set_mclock_profile_def
      set_osd_capacity_params_from_config_eq example_members_def get_val_string_def
      example_conf_def)

lemma balanced_defaults:
  "default_calls (profile_defaults (set_balanced_profile_allocations s)) =
     [set_val_default osd_mclock_scheduler_client_res (of_double 0.4),
      set_val_default osd_mclock_scheduler_client_wgt (of_uint64 1),
      set_val_default osd_mclock_scheduler_client_lim (of_double 1.0),
      set_val_default osd_mclock_scheduler_background_recovery_res (of_double 0.4),
      set_val_default osd_mclock_scheduler_background_recovery_wgt (of_uint64 1),
      set_val_default osd_mclock_scheduler_background_recovery_lim (of_double 0.7),
      set_val_default osd_mclock_scheduler_background_best_effort_res (of_double 0.2),
      set_val_default osd_mclock_scheduler_background_best_effort_wgt (of_uint64 1),
      set_val_default osd_mclock_scheduler_background_best_effort_lim (of_double 0)]"
  by (simp add: default_calls_def profile_defaults_def set_balanced_profile_allocations_def
      ClientAllocs_update_def uint64_of_double_def)

lemma example_calls:
  "calls (example_on_shard n) =
     (if n > 0 then []
      else [set_val_default osd_mclock_scheduler_client_res (of_double 0.4),
            set_val_default osd_mclock_scheduler_client_wgt (of_uint64 1),
            set_val_default osd_mclock_scheduler_client_lim (of_double 1.0),
            set_val_default osd_mclock_scheduler_background_recovery_res (of_double 0.4),
            set_val_default osd_mclock_scheduler_background_recovery_wgt (of_uint64 1),
            set_val_default osd_mclock_scheduler_background_recovery_lim (of_double 0.7),
            set_val_default osd_mclock_scheduler_background_best_effort_res (of_double 0.2),
            set_val_default osd_mclock_scheduler_background_best_effort_wgt (of_uint64 1),
            set_val_default osd_mclock_scheduler_background_best_effort_lim (of_double 0),
            apply_changes])"
  by (simp add: example_on_shard_def client_registry_update_from_config_def
      set_profile_config_eq set_mclock_profile_def
      set_osd_capacity_params_from_config_eq example_members_def balanced_defaults)
    (simp add: set_balanced_profile_allocations_def)

lemma example_capacity:
  "osd_bandwidth_cost_per_io (example_on_shard n) = 2"
  "osd_bandwidth_capacity_per_shard (example_on_shard n) = 200"
  by (simp_all add: example_on_shard_def client_registry_update_from_config_def
      set_profile_config_eq set_balanced_profile_allocations_def set_mclock_profile_def
      set_osd_capacity_params_from_config_eq example_members_def
      cost_per_io_from_def capacity_per_shard_from_def bandwidth_capacity_def iops_capacity_def
      get_val_size_def get_val_double_def example_conf_def double_of_real_200 double_of_real_2)

subsection \<open>The bypass queue\<close>

text \<open>
  Claim C1.  Whenever the bypass queue is not empty, \<open>dequeue\<close> returns its head and
  removes it, whatever the dmclock queue would have answered, and leaves the dmclock
  queue as it was.  An item of class immediate is enqueued at the tail of the bypass
  queue; enqueued into a scheduler whose two queues are empty and dequeued at once,
  it is the item returned, and both queues are empty again.
\<close>

theorem dequeue_serves_bypass_first:
  "(bypass_queue s = x # xs \<longrightarrow>
      dequeue pull_request s = Inr (work_item x, s\<lparr>immediate := rev xs\<rparr>) \<and>
      bypass_queue (s\<lparr>immediate := rev xs\<rparr>) = xs \<and>
      scheduler (s\<lparr>immediate := rev xs\<rparr>) = scheduler s) \<and>
   (scheduler_class item = op_immediate \<longrightarrow>
      bypass_queue (enqueue add_request item s) = bypass_queue s @ [item]) \<and>
   (scheduler_class item = op_immediate \<and> immediate s = [] \<and>
      request_count (scheduler s) = (0 :: nat) \<longrightarrow>
      (\<exists>s'. dequeue pull_request (enqueue add_request item s) = Inr (work_item item, s') \<and>
            immediate s' = [] \<and> request_count (scheduler s') = 0 \<and> s' = s))"
proof (intro conjI impI)
  assume "bypass_queue s = x # xs"
  then have "immediate s = rev xs @ [x]"
    unfolding bypass_queue_def by (metis rev.simps(2) rev_rev_ident)
  then show "dequeue pull_request s = Inr (work_item x, s\<lparr>immediate := rev xs\<rparr>)"
    by (simp add: dequeue_def)
next
  show "bypass_queue (s\<lparr>immediate := rev xs\<rparr>) = xs"
    by (simp add: bypass_queue_def)
next
  show "scheduler (s\<lparr>immediate := rev xs\<rparr>) = scheduler s"
    by simp
next
  assume "scheduler_class item = op_immediate"
  then show "bypass_queue (enqueue add_request item s) = bypass_queue s @ [item]"
    by (simp add: bypass_queue_def enqueue_def get_scheduler_id_def)
next
  assume "scheduler_class item = op_immediate \<and> immediate s = [] \<and>
    request_count (scheduler s) = 0"
  then show "\<exists>s'. dequeue pull_request (enqueue add_request item s) = Inr (work_item item, s') \<and>
      immediate s' = [] \<and> request_count (scheduler s') = 0 \<and> s' = s"
    by (simp add: dequeue_def enqueue_def get_scheduler_id_def)
qed

theorem dequeue_serves_bypass_first_witness:
  "bypass_queue (example_scheduler\<lparr>immediate := [example_item op_client 2,
       example_item op_immediate 1]\<rparr>) =
     [example_item op_immediate 1, example_item op_client 2] \<and>
   dequeue fifo_pull_request (example_scheduler\<lparr>immediate := [example_item op_client 2,
       example_item op_immediate 1]\<rparr>) =
     Inr (work_item (example_item op_immediate 1),
          example_scheduler\<lparr>immediate := [example_item op_client 2]\<rparr>) \<and>
   immediate example_scheduler = [] \<and> length (scheduler example_scheduler) = 0 \<and>
   dequeue fifo_pull_request
       (enqueue fifo_add_request (example_item op_immediate 1) example_scheduler) =
     Inr (work_item (example_item op_immediate 1), example_scheduler)"
proof -
  let ?s = "example_scheduler\<lparr>immediate := [example_item op_client 2,
       example_item op_immediate 1]\<rparr>"
  have h1: "bypass_queue ?s = [example_item op_immediate 1, example_item op_client 2]"
    by (simp add: bypass_queue_def)
  have h2: "scheduler_class (example_item op_immediate 1) = op_immediate \<and>
      immediate example_scheduler = [] \<and> length (scheduler example_scheduler) = 0"
    by (simp add: example_item_def example_scheduler_def example_fields)
  show ?thesis
    using h1 h2
      dequeue_serves_bypass_first [of ?s "example_item op_immediate 1"
        "[example_item op_client 2]" fifo_pull_request "example_item op_immediate 1"
        fifo_add_request length]
      dequeue_serves_bypass_first [of example_scheduler "example_item op_immediate 1"
        "[]" fifo_pull_request "example_item op_immediate 1" fifo_add_request length]
    by simp
qed

text \<open>
  Claim C9.  In every state, whatever the bypass queue holds, \<open>enqueue_front\<close> of an
  item followed at once by \<open>dequeue\<close> returns that item (and the scheduler is back in
  the state it was in).
\<close>

theorem enqueue_front_then_dequeue:
  "dequeue pull_request (enqueue_front X s) = Inr (work_item X, s)"
  by (simp add: dequeue_def enqueue_front_def)

theorem enqueue_front_then_dequeue_witness:
  "dequeue fifo_pull_request
     (enqueue_front (example_item op_client 5)
        (example_scheduler\<lparr>immediate := [example_item op_immediate 1]\<rparr>)) =
   Inr (work_item (example_item op_client 5),
        example_scheduler\<lparr>immediate := [example_item op_immediate 1]\<rparr>)"
  by (rule enqueue_front_then_dequeue)

subsection \<open>Aborts\<close>

text \<open>
  Claim C7.  Each of these aborts on a failed assertion and returns nothing:
  \<open>get_info\<close> of an identity of class immediate; enabling the settings of a profile
  whose name is none of the four; \<open>dequeue\<close> when the bypass queue is empty and the
  dmclock queue answers that it has nothing.
\<close>

theorem fatal_conditions_abort:
  "(class_id ident = op_immediate \<longrightarrow>
      get_info reg ident = Inl (ceph_assert_fail ''Cannot schedule immediate'')) \<and>
   (mclock_profile s \<notin> {''custom'', ''balanced'', ''high_recovery_ops'', ''high_client_ops''} \<longrightarrow>
      enable_mclock_profile_settings s =
        Inl (ceph_assert_fail ''Invalid choice of mclock profile'')) \<and>
   (immediate s = [] \<and> fst (pull_request (scheduler s)) = is_none \<longrightarrow>
      dequeue pull_request s =
        Inl (ceph_assert_fail ''Impossible, must have checked empty() first''))"
  by (auto simp: get_info_def enable_mclock_profile_settings_def dequeue_def split: prod.splits)

theorem fatal_conditions_abort_witness:
  "get_info example_registry (get_scheduler_id (example_item op_immediate 1)) =
     Inl (ceph_assert_fail ''Cannot schedule immediate'') \<and>
   enable_mclock_profile_settings (example_scheduler\<lparr>mclock_profile := ''fast''\<rparr>) =
     Inl (ceph_assert_fail ''Invalid choice of mclock profile'') \<and>
   immediate example_scheduler = [] \<and>
   fst (fifo_pull_request (scheduler example_scheduler)) = is_none \<and>
   dequeue fifo_pull_request example_scheduler =
     Inl (ceph_assert_fail ''Impossible, must have checked empty() first'')"
proof -
  have h1: "class_id (get_scheduler_id (example_item op_immediate 1)) = op_immediate"
    by (simp add: get_scheduler_id_def example_item_def)
  have h2: "mclock_profile (example_scheduler\<lparr>mclock_profile := ''fast''\<rparr>) \<notin>
      {''custom'', ''balanced'', ''high_recovery_ops'', ''high_client_ops''}"
    by simp
  have h3: "immediate example_scheduler = [] \<and>
      fst (fifo_pull_request (scheduler example_scheduler)) = is_none"
    by (simp add: example_scheduler_def example_fields fifo_pull_request_def)
  show ?thesis
    using h1 h2 h3
      fatal_conditions_abort [of "get_scheduler_id (example_item op_immediate 1)"
        example_registry "example_scheduler\<lparr>mclock_profile := ''fast''\<rparr>" fifo_pull_request]
      fatal_conditions_abort [of "get_scheduler_id (example_item op_immediate 1)"
        example_registry example_scheduler fifo_pull_request]
    by simp
qed

subsection \<open>Profiles\<close>

text \<open>
  Claim C4.  Selecting one of the three built-in profiles succeeds and leaves the
  allocations (reservation fraction, weight, limit fraction) of the three classes
  as the table gives them.
\<close>

theorem profile_allocation_tables:
  "(\<exists>s'. enable_mclock_profile_settings (s\<lparr>mclock_profile := ''balanced''\<rparr>) = Inr s' \<and>
      client_allocs s' op_client = \<lparr>res = 0.4, wgt = 1, lim_frac = 1.0\<rparr> \<and>
      client_allocs s' op_background_recovery = \<lparr>res = 0.4, wgt = 1, lim_frac = 0.7\<rparr> \<and>
      client_allocs s' op_background_best_effort = \<lparr>res = 0.2, wgt = 1, lim_frac = 0\<rparr>) \<and>
   (\<exists>s'. enable_mclock_profile_settings (s\<lparr>mclock_profile := ''high_recovery_ops''\<rparr>) = Inr s' \<and>
      client_allocs s' op_client = \<lparr>res = 0.3, wgt = 1, lim_frac = 0.8\<rparr> \<and>
      client_allocs s' op_background_recovery = \<lparr>res = 0.6, wgt = 2, lim_frac = 0\<rparr> \<and>
      client_allocs s' op_background_best_effort = \<lparr>res = 0, wgt = 1, lim_frac = 0\<rparr>) \<and>
   (\<exists>s'. enable_mclock_profile_settings (s\<lparr>mclock_profile := ''high_client_ops''\<rparr>) = Inr s' \<and>
      client_allocs s' op_client = \<lparr>res = 0.6, wgt = 5, lim_frac = 0\<rparr> \<and>
      client_allocs s' op_background_recovery = \<lparr>res = 0.2, wgt = 1, lim_frac = 0.5\<rparr> \<and>
      client_allocs s' op_background_best_effort = \<lparr>res = 0.2, wgt = 1, lim_frac = 0\<rparr>)"
  by (simp add: enable_mclock_profile_settings_def set_profile_config_client_allocs
      set_balanced_profile_allocations_def set_high_recovery_ops_profile_allocations_def
      set_high_client_ops_profile_allocations_def ClientAllocs_update_def)

theorem profile_allocation_tables_witness:
  "\<exists>s'. enable_mclock_profile_settings (example_scheduler\<lparr>mclock_profile := ''high_client_ops''\<rparr>) =
          Inr s' \<and>
        client_allocs s' op_client = \<lparr>res = 0.6, wgt = 5, lim_frac = 0\<rparr> \<and>
        client_allocs s' op_background_recovery = \<lparr>res = 0.2, wgt = 1, lim_frac = 0.5\<rparr> \<and>
        client_allocs s' op_background_best_effort = \<lparr>res = 0.2, wgt = 1, lim_frac = 0\<rparr>"
  using profile_allocation_tables [of example_scheduler] by blast

subsection \<open>The registry\<close>

lemma update_from_config_infos:
  "default_external_client_info (update_from_config c cap reg) =
     ClientInfo_update
       (get_res reg cap (get_val_double c osd_mclock_scheduler_client_res))
       (real (get_val_uint c osd_mclock_scheduler_client_wgt))
       (get_lim reg cap (get_val_double c osd_mclock_scheduler_client_lim))"
  "internal_client_infos (update_from_config c cap reg) op_background_recovery =
     ClientInfo_update
       (get_res reg cap (get_val_double c osd_mclock_scheduler_background_recovery_res))
       (real (get_val_uint c osd_mclock_scheduler_background_recovery_wgt))
       (get_lim reg cap (get_val_double c osd_mclock_scheduler_background_recovery_lim))"
  "internal_client_infos (update_from_config c cap reg) op_background_best_effort =
     ClientInfo_update
       (get_res reg cap (get_val_double c osd_mclock_scheduler_background_best_effort_res))
       (real (get_val_uint c osd_mclock_scheduler_background_best_effort_wgt))
       (get_lim reg cap (get_val_double c osd_mclock_scheduler_background_best_effort_lim))"
  by (simp_all add: update_from_config_def Let_def)

text \<open>
  Claim C5.  For every fraction (those of the interval from 0 to 1 among them) and
  every capacity per shard, \<open>get_res\<close> and \<open>get_lim\<close> return the fraction times the
  capacity when the fraction is not 0, and \<open>default_min\<close>, respectively
  \<open>default_max\<close>, when it is 0; these are the reservation and the limit that
  \<open>update_from_config\<close> stores for each class from the fractions configured.
\<close>

theorem reservation_limit_conversion:
  "(f \<noteq> 0 \<longrightarrow> get_res reg cap f = f * cap \<and> get_lim reg cap f = f * cap) \<and>
   (f = 0 \<longrightarrow> get_res reg cap f = default_min reg \<and> get_lim reg cap f = default_max reg) \<and>
   reservation (default_external_client_info (update_from_config c cap reg)) =
     get_res reg cap (get_val_double c osd_mclock_scheduler_client_res) \<and>
   limit (default_external_client_info (update_from_config c cap reg)) =
     get_lim reg cap (get_val_double c osd_mclock_scheduler_client_lim) \<and>
   reservation (internal_client_infos (update_from_config c cap reg) op_background_recovery) =
     get_res reg cap (get_val_double c osd_mclock_scheduler_background_recovery_res) \<and>
   limit (internal_client_infos (update_from_config c cap reg) op_background_recovery) =
     get_lim reg cap (get_val_double c osd_mclock_scheduler_background_recovery_lim) \<and>
   reservation (internal_client_infos (update_from_config c cap reg) op_background_best_effort) =
     get_res reg cap (get_val_double c osd_mclock_scheduler_background_best_effort_res) \<and>
   limit (internal_client_infos (update_from_config c cap reg) op_background_best_effort) =
     get_lim reg cap (get_val_double c osd_mclock_scheduler_background_best_effort_lim)"
  by (simp add: update_from_config_infos ClientInfo_update_def) (simp add: get_res_def get_lim_def)

theorem reservation_limit_conversion_witness:
  "(0.4 :: real) \<noteq> 0 \<and> get_res example_registry 200 0.4 = 80 \<and>
   get_lim example_registry 200 0.4 = 80 \<and>
   get_res example_registry 200 0 = 0 \<and> get_lim example_registry 200 0 = 1000000"
  using reservation_limit_conversion [of "0.4" example_registry 200 example_conf]
    reservation_limit_conversion [of 0 example_registry 200 example_conf]
  by (simp add: example_registry_def)

subsection \<open>The scaled cost\<close>

lemma uint_sum: "uint ((word_of_int a :: 32 word) + word_of_int b) = (a + b) mod 2 ^ 32"
  by (simp add: uint_word_ariths uint_word_of_int mod_simps)

lemma uint_calc_scaled_cost:
  "uint (calc_scaled_cost s c) = (\<lfloor>osd_bandwidth_cost_per_io s\<rfloor> + max 1 c) mod 2 ^ 32"
  by (simp add: calc_scaled_cost_def uint32_of_double_def Let_def uint_sum)

lemma double_of_real_wide: "double_of_real 4294967295 = 4294967295"
  using double_of_real_nat [of 4294967295] by simp

lemma double_of_real_uneven:
  "double_of_real (200 / (3602879701896397 / 2251799813685248)) = 125"
  by (simp add: double_of_real_def ulp_of_def binary_exponent_def round_half_even_def
      bit_length.simps Let_def)

lemma uneven_setting_capacities:
  "bandwidth_capacity (conf uneven_setting) (is_rotational uneven_setting) = 200"
  "iops_capacity (conf uneven_setting) (is_rotational uneven_setting) =
     3602879701896397 / 2251799813685248"
proof -
  have size: "get_val_size (conf example_scheduler) k = 200" for k
    by (simp add: example_scheduler_def example_on_shard_def
        client_registry_update_from_config_def set_profile_config_eq
        set_balanced_profile_allocations_def set_mclock_profile_def
        set_osd_capacity_params_from_config_eq example_members_def store_defaults_size)
      (simp add: get_val_size_def example_conf_def)
  show "bandwidth_capacity (conf uneven_setting) (is_rotational uneven_setting) = 200"
    using size by (simp add: uneven_setting_def bandwidth_capacity_def get_val_size_def)
  show "iops_capacity (conf uneven_setting) (is_rotational uneven_setting) =
      3602879701896397 / 2251799813685248"
    by (simp add: uneven_setting_def iops_capacity_def get_val_double_def
        example_scheduler_def example_fields)
qed

lemma uneven_capacities:
  "bandwidth_capacity (conf uneven_scheduler) (is_rotational uneven_scheduler) = 200"
  "iops_capacity (conf uneven_scheduler) (is_rotational uneven_scheduler) =
     3602879701896397 / 2251799813685248"
  "osd_bandwidth_cost_per_io uneven_scheduler = 125"
proof -
  show "bandwidth_capacity (conf uneven_scheduler) (is_rotational uneven_scheduler) = 200"
    using uneven_setting_capacities(1)
    by (simp add: uneven_scheduler_def set_osd_capacity_params_from_config_eq)
  show "iops_capacity (conf uneven_scheduler) (is_rotational uneven_scheduler) =
      3602879701896397 / 2251799813685248"
    using uneven_setting_capacities(2)
    by (simp add: uneven_scheduler_def set_osd_capacity_params_from_config_eq)
  have "osd_bandwidth_cost_per_io uneven_scheduler =
      cost_per_io_from (conf uneven_setting) (is_rotational uneven_setting)"
    by (simp add: uneven_scheduler_def set_osd_capacity_params_from_config_eq)
  also have "\<dots> = 125"
    unfolding cost_per_io_from_def uneven_setting_capacities
    by (simp only: of_nat_numeral double_of_real_200 double_of_real_uneven)
  finally show "osd_bandwidth_cost_per_io uneven_scheduler = 125" .
qed

text \<open>
  The sum is one of \<^verbatim>\<open>uint32_t\<close>.  With a bandwidth of \<open>2 ^ 32 - 1\<close> and one IO per
  second the cost per IO is \<open>2 ^ 32 - 1\<close>, and an item of raw cost 1 gets the scaled
  cost 0, not the sum \<open>2 ^ 32\<close>.  And the ratio is one of doubles.  With a bandwidth of
  200 and an IOPS capacity of the double next to 1.6, which is a little above 1.6, the
  ratio is below 125 and truncates to 124; the division of the doubles rounds to 125,
  and an item of raw cost 10 gets the scaled cost 135, not 134.
\<close>

theorem scaled_cost_wraps_and_rounds:
  "\<lfloor>osd_bandwidth_cost_per_io wide_scheduler\<rfloor> = 4294967295 \<and>
   uint (calc_scaled_cost wide_scheduler 1) = 0 \<and>
   uint (calc_scaled_cost wide_scheduler 1) \<noteq>
     \<lfloor>osd_bandwidth_cost_per_io wide_scheduler\<rfloor> + max 1 1 \<and>
   bandwidth_capacity (conf uneven_scheduler) (is_rotational uneven_scheduler) = 200 \<and>
   iops_capacity (conf uneven_scheduler) (is_rotational uneven_scheduler) =
     3602879701896397 / 2251799813685248 \<and>
   \<lfloor>real (bandwidth_capacity (conf uneven_scheduler) (is_rotational uneven_scheduler)) /
      iops_capacity (conf uneven_scheduler) (is_rotational uneven_scheduler)\<rfloor> = 124 \<and>
   uint (calc_scaled_cost uneven_scheduler 10) = 135 \<and>
   uint (calc_scaled_cost uneven_scheduler 10) \<noteq>
     \<lfloor>real (bandwidth_capacity (conf uneven_scheduler) (is_rotational uneven_scheduler)) /
        iops_capacity (conf uneven_scheduler) (is_rotational uneven_scheduler)\<rfloor> + max 1 10"
proof -
  have c: "osd_bandwidth_cost_per_io wide_scheduler = 4294967295"
    by (simp add: wide_scheduler_def wide_conf_def set_osd_capacity_params_from_config_eq
        example_fields example_scheduler_def cost_per_io_from_def bandwidth_capacity_def
        iops_capacity_def get_val_size_def get_val_double_def double_of_real_wide)
  have q: "\<lfloor>200 / (3602879701896397 / 2251799813685248) :: real\<rfloor> = 124"
    by (simp add: floor_eq_iff)
  show ?thesis
    by (simp add: uint_calc_scaled_cost c uneven_capacities q)
qed

text \<open>
  Claim C2, as amended.  For a cost per IO from 0 up to \<open>2 ^ 32\<close> excluded, the scaled
  cost of every raw cost is the cost per IO, truncated to an integer, plus the raw
  cost raised to 1 at least, taken modulo \<open>2 ^ 32\<close>: it is that sum whenever the sum
  is below \<open>2 ^ 32\<close>.  It is the cost that \<open>enqueue\<close> attaches to an item that is not
  of class immediate and submits with it.  The cost per IO that
  \<open>set_osd_capacity_params_from_config\<close> derives is the bandwidth divided by the IOPS
  capacity as doubles divide: the bandwidth rounded to a double, which below \<open>2 ^ 53\<close>
  it is already, and the quotient rounded to a double.  With bandwidth 200 and IOPS capacity 100 a raw cost of 10 is
  scaled to 12 and a raw cost of 0 to 3; with bandwidth 200 and the double next to 1.6
  as IOPS capacity the cost per IO is 125.
\<close>

theorem scaled_cost_modulo:
  assumes "0 \<le> osd_bandwidth_cost_per_io s" and "osd_bandwidth_cost_per_io s < 2 ^ 32"
  shows "uint (calc_scaled_cost s c) =
           (\<lfloor>osd_bandwidth_cost_per_io s\<rfloor> + max 1 c) mod 2 ^ 32 \<and>
         (\<lfloor>osd_bandwidth_cost_per_io s\<rfloor> + max 1 c < 2 ^ 32 \<longrightarrow>
            uint (calc_scaled_cost s c) = \<lfloor>osd_bandwidth_cost_per_io s\<rfloor> + max 1 c) \<and>
         (scheduler_class item \<noteq> op_immediate \<longrightarrow>
            enqueue add_request item s =
              s\<lparr>scheduler :=
                  add_request (item\<lparr>qos_cost := calc_scaled_cost s (cost item)\<rparr>)
                    (get_scheduler_id item) (calc_scaled_cost s (cost item)) (scheduler s)\<rparr>) \<and>
         osd_bandwidth_cost_per_io (set_osd_capacity_params_from_config t) =
           double_of_real
             (double_of_real (real (bandwidth_capacity (conf t) (is_rotational t))) /
                iops_capacity (conf t) (is_rotational t)) \<and>
         (bandwidth_capacity (conf t) (is_rotational t) < 2 ^ 53 \<longrightarrow>
            osd_bandwidth_cost_per_io (set_osd_capacity_params_from_config t) =
              double_of_real
                (real (bandwidth_capacity (conf t) (is_rotational t)) /
                   iops_capacity (conf t) (is_rotational t))) \<and>
         (bandwidth_capacity (conf t) (is_rotational t) = 200 \<and>
          iops_capacity (conf t) (is_rotational t) = 100 \<longrightarrow>
            osd_bandwidth_cost_per_io (set_osd_capacity_params_from_config t) = 2 \<and>
            calc_scaled_cost (set_osd_capacity_params_from_config t) 10 = 12 \<and>
            calc_scaled_cost (set_osd_capacity_params_from_config t) 0 = 3) \<and>
         (bandwidth_capacity (conf t) (is_rotational t) = 200 \<and>
          iops_capacity (conf t) (is_rotational t) = 3602879701896397 / 2251799813685248 \<longrightarrow>
            osd_bandwidth_cost_per_io (set_osd_capacity_params_from_config t) = 125 \<and>
            calc_scaled_cost (set_osd_capacity_params_from_config t) 10 = 135)"
proof (intro conjI impI)
  show m: "uint (calc_scaled_cost s c) =
      (\<lfloor>osd_bandwidth_cost_per_io s\<rfloor> + max 1 c) mod 2 ^ 32"
    by (rule uint_calc_scaled_cost)
  have "0 \<le> \<lfloor>osd_bandwidth_cost_per_io s\<rfloor>"
    using assms(1) by simp
  then have nonneg: "0 \<le> \<lfloor>osd_bandwidth_cost_per_io s\<rfloor> + max 1 c"
    by simp
  assume "\<lfloor>osd_bandwidth_cost_per_io s\<rfloor> + max 1 c < 2 ^ 32"
  with nonneg show "uint (calc_scaled_cost s c) = \<lfloor>osd_bandwidth_cost_per_io s\<rfloor> + max 1 c"
    unfolding m by simp
next
  assume "scheduler_class item \<noteq> op_immediate"
  then show "enqueue add_request item s =
      s\<lparr>scheduler :=
          add_request (item\<lparr>qos_cost := calc_scaled_cost s (cost item)\<rparr>)
            (get_scheduler_id item) (calc_scaled_cost s (cost item)) (scheduler s)\<rparr>"
    by (auto simp: enqueue_def get_scheduler_id_def Let_def)
next
  show "osd_bandwidth_cost_per_io (set_osd_capacity_params_from_config t) =
      double_of_real
        (double_of_real (real (bandwidth_capacity (conf t) (is_rotational t))) /
           iops_capacity (conf t) (is_rotational t))"
    by (simp add: set_osd_capacity_params_from_config_eq cost_per_io_from_def)
next
  assume "bandwidth_capacity (conf t) (is_rotational t) < 2 ^ 53"
  then show "osd_bandwidth_cost_per_io (set_osd_capacity_params_from_config t) =
      double_of_real
        (real (bandwidth_capacity (conf t) (is_rotational t)) /
           iops_capacity (conf t) (is_rotational t))"
    by (simp add: set_osd_capacity_params_from_config_eq cost_per_io_from_def
        double_of_real_nat)
next
  assume "bandwidth_capacity (conf t) (is_rotational t) = 200 \<and>
    iops_capacity (conf t) (is_rotational t) = 100"
  then show c: "osd_bandwidth_cost_per_io (set_osd_capacity_params_from_config t) = 2"
    by (simp add: set_osd_capacity_params_from_config_eq cost_per_io_from_def
        double_of_real_200 double_of_real_2)
  show "calc_scaled_cost (set_osd_capacity_params_from_config t) 10 = 12"
    by (simp add: calc_scaled_cost_def uint32_of_double_def c)
  show "calc_scaled_cost (set_osd_capacity_params_from_config t) 0 = 3"
    by (simp add: calc_scaled_cost_def uint32_of_double_def c)
next
  assume a: "bandwidth_capacity (conf t) (is_rotational t) = 200 \<and>
    iops_capacity (conf t) (is_rotational t) = 3602879701896397 / 2251799813685248"
  have "osd_bandwidth_cost_per_io (set_osd_capacity_params_from_config t) =
      cost_per_io_from (conf t) (is_rotational t)"
    by (simp add: set_osd_capacity_params_from_config_eq)
  also have "\<dots> = 125"
    unfolding cost_per_io_from_def conjunct1 [OF a] conjunct2 [OF a]
    by (simp only: of_nat_numeral double_of_real_200 double_of_real_uneven)
  finally show c: "osd_bandwidth_cost_per_io (set_osd_capacity_params_from_config t) = 125" .
  show "calc_scaled_cost (set_osd_capacity_params_from_config t) 10 = 135"
    by (simp add: calc_scaled_cost_def uint32_of_double_def c)
qed

theorem scaled_cost_modulo_witness:
  "0 \<le> osd_bandwidth_cost_per_io example_scheduler \<and>
   osd_bandwidth_cost_per_io example_scheduler < 2 ^ 32 \<and>
   uint (calc_scaled_cost example_scheduler 10) = 12 \<and>
   scheduler_class (example_item op_client 1) \<noteq> op_immediate \<and>
   bandwidth_capacity (conf (example_members 0)) (is_rotational (example_members 0)) = 200 \<and>
   iops_capacity (conf (example_members 0)) (is_rotational (example_members 0)) = 100 \<and>
   calc_scaled_cost (set_osd_capacity_params_from_config (example_members 0)) 10 = 12 \<and>
   calc_scaled_cost (set_osd_capacity_params_from_config (example_members 0)) 0 = 3 \<and>
   bandwidth_capacity (conf uneven_setting) (is_rotational uneven_setting) < 2 ^ 53 \<and>
   bandwidth_capacity (conf uneven_setting) (is_rotational uneven_setting) = 200 \<and>
   iops_capacity (conf uneven_setting) (is_rotational uneven_setting) =
     3602879701896397 / 2251799813685248 \<and>
   osd_bandwidth_cost_per_io (set_osd_capacity_params_from_config uneven_setting) =
     double_of_real (200 / (3602879701896397 / 2251799813685248)) \<and>
   osd_bandwidth_cost_per_io (set_osd_capacity_params_from_config uneven_setting) = 125 \<and>
   calc_scaled_cost (set_osd_capacity_params_from_config uneven_setting) 10 = 135"
proof -
  have h1: "0 \<le> osd_bandwidth_cost_per_io example_scheduler"
    and h2: "osd_bandwidth_cost_per_io example_scheduler < 2 ^ 32"
    by (simp_all add: example_scheduler_def example_capacity)
  have h3: "bandwidth_capacity (conf (example_members 0)) (is_rotational (example_members 0)) = 200"
    and h4: "iops_capacity (conf (example_members 0)) (is_rotational (example_members 0)) = 100"
    by (simp_all add: example_members_def example_conf_def bandwidth_capacity_def
        iops_capacity_def get_val_size_def get_val_double_def)
  have h5: "scheduler_class (example_item op_client 1) \<noteq> op_immediate"
    by (simp add: example_item_def)
  have a: "calc_scaled_cost (set_osd_capacity_params_from_config (example_members 0)) 10 = 12 \<and>
      calc_scaled_cost (set_osd_capacity_params_from_config (example_members 0)) 0 = 3"
    using h3 h4
      scaled_cost_modulo [OF h1 h2, of 10 "example_item op_client 1" fifo_add_request
        "example_members 0"]
    by blast
  have b: "osd_bandwidth_cost_per_io (set_osd_capacity_params_from_config uneven_setting) = 125 \<and>
      calc_scaled_cost (set_osd_capacity_params_from_config uneven_setting) 10 = 135"
    using uneven_setting_capacities
      scaled_cost_modulo [OF h1 h2, of 10 "example_item op_client 1" fifo_add_request
        uneven_setting]
    by blast
  have h6: "bandwidth_capacity (conf uneven_setting) (is_rotational uneven_setting) < 2 ^ 53"
    by (simp add: uneven_setting_capacities)
  have d: "osd_bandwidth_cost_per_io (set_osd_capacity_params_from_config uneven_setting) =
      double_of_real (200 / (3602879701896397 / 2251799813685248))"
  proof -
    from h6 scaled_cost_modulo [OF h1 h2, of 10 "example_item op_client 1" fifo_add_request
        uneven_setting]
    have "osd_bandwidth_cost_per_io (set_osd_capacity_params_from_config uneven_setting) =
        double_of_real
          (real (bandwidth_capacity (conf uneven_setting) (is_rotational uneven_setting)) /
             iops_capacity (conf uneven_setting) (is_rotational uneven_setting))"
      by blast
    then show ?thesis
      unfolding uneven_setting_capacities by (simp only: of_nat_numeral)
  qed
  have c: "uint (calc_scaled_cost example_scheduler 10) = 12"
    using scaled_cost_modulo [OF h1 h2, of 10 "example_item op_client 1" fifo_add_request
        uneven_setting]
    by (simp add: example_scheduler_def example_capacity)
  show ?thesis
    using h1 h2 h3 h4 h5 h6 a b c d uneven_setting_capacities by blast
qed

subsection \<open>Which shard writes the defaults of a profile\<close>

lemma set_profile_config_shard_zero:
  "shard_id s = 0 \<Longrightarrow>
     calls (set_profile_config s) =
       calls s @ default_calls (profile_defaults s) @ [apply_changes]"
  by (simp add: set_profile_config_eq)

lemma set_profile_config_positive_shard:
  "shard_id s > 0 \<Longrightarrow> set_profile_config s = s"
  by (simp add: set_profile_config_eq)

lemma set_profile_config_negative_shard:
  "shard_id s < 0 \<Longrightarrow>
     calls (set_profile_config s) =
       calls s @ default_calls (profile_defaults s) @ [apply_changes]"
  by (simp add: set_profile_config_eq)

text \<open>
  Claim C8.  Selecting a built-in profile writes the nine values of the profile as
  defaults of the configuration, and then applies them, on the shard of identity 0
  and on no other.  The code does so on shard 0 and on no shard of positive identity
  (the first two lemmas above), but \<open>set_profile_config\<close> returns early only when the
  identity is positive: a scheduler built with the identity \<open>- 1\<close> under the profile
  \<^verbatim>\<open>balanced\<close> writes the nine defaults and applies them, as this run of the
  constructor shows.
\<close>

theorem negative_shard_writes_defaults:
  "calls_of (mClockScheduler_new example_conf 3 1 (- 1) True True
       (\<lambda>c. ClientAllocs_update 1 1 1) example_registry ([] :: OpSchedulerItem list)) =
     Some [set_val_default osd_mclock_scheduler_client_res (of_double 0.4),
           set_val_default osd_mclock_scheduler_client_wgt (of_uint64 1),
           set_val_default osd_mclock_scheduler_client_lim (of_double 1.0),
           set_val_default osd_mclock_scheduler_background_recovery_res (of_double 0.4),
           set_val_default osd_mclock_scheduler_background_recovery_wgt (of_uint64 1),
           set_val_default osd_mclock_scheduler_background_recovery_lim (of_double 0.7),
           set_val_default osd_mclock_scheduler_background_best_effort_res (of_double 0.2),
           set_val_default osd_mclock_scheduler_background_best_effort_wgt (of_uint64 1),
           set_val_default osd_mclock_scheduler_background_best_effort_lim (of_double 0),
           apply_changes]"
  unfolding example_constructed calls_of_def by (simp add: example_calls)

lemma positive_shard_writes_nothing:
  "calls_of (mClockScheduler_new example_conf 3 1 1 True True
       (\<lambda>c. ClientAllocs_update 1 1 1) example_registry ([] :: OpSchedulerItem list)) = Some []"
  unfolding example_constructed calls_of_def by (simp add: example_calls)

subsection \<open>The parts of a reaction\<close>

lemma handle_conf_change_parts:
  "handle_conf_change changed (built, s) =
     and_then (iops_part changed s)
       (\<lambda>s3. and_then (profile_part changed (bandwidth_part changed s3))
          (\<lambda>s7. Inr (qos_part changed built s7)))"
  by (simp add: handle_conf_change_def iops_part_def bandwidth_part_def profile_part_def
      qos_part_def Let_def)

lemma capacity_recomputed_eq:
  "set_osd_capacity_params_from_config s = capacity_recomputed s"
  by (simp add: set_osd_capacity_params_from_config_eq capacity_recomputed_def)

lemma set_profile_config_published:
  "set_profile_config s = (if shard_id s > 0 then s else defaults_published s)"
  by (simp add: set_profile_config_eq defaults_published_def)

lemma enable_built_in:
  assumes "mclock_profile s \<in> built_in_profiles"
  shows "enable_mclock_profile_settings s = Inr (set_profile_config (allocations_recomputed s))"
  using assms
  by (auto simp: built_in_profiles_def enable_mclock_profile_settings_def
      allocations_recomputed_def with_profile_table_def ClientAllocs_update_def
      set_balanced_profile_allocations_def set_high_recovery_ops_profile_allocations_def
      set_high_client_ops_profile_allocations_def)

lemma enable_invalid:
  assumes "mclock_profile s \<notin> profile_names"
  shows "enable_mclock_profile_settings s =
     Inl (ceph_assert_fail ''Invalid choice of mclock profile'')"
  using assms
  by (simp add: profile_names_def built_in_profiles_def enable_mclock_profile_settings_def)

lemma built_in_not_custom: "p \<in> built_in_profiles \<Longrightarrow> p \<noteq> ''custom''"
  by (auto simp: built_in_profiles_def)

lemma profile_names_cases:
  "p \<in> profile_names \<longleftrightarrow> p = ''custom'' \<or> p \<in> built_in_profiles"
  by (simp add: profile_names_def)

lemma same_shard_refl: "same_shard s s"
  by (simp add: same_shard_def)

lemma same_shard_trans: "same_shard s t \<Longrightarrow> same_shard t u \<Longrightarrow> same_shard s u"
  by (simp add: same_shard_def)

lemma conf_written_refl: "conf_written s s []"
  by (simp add: conf_written_def)

lemma conf_written_trans:
  "conf_written s t ws \<Longrightarrow> conf_written t u vs \<Longrightarrow> conf_written s u (ws @ vs)"
  by (simp add: conf_written_def)

lemma default_calls_conf_write: "list_all conf_write (default_calls kvs @ [apply_changes])"
  by (induction kvs) (auto simp: default_calls_def)

text \<open>What each step leaves as it was.\<close>

lemma capacity_recomputed_frame:
  "same_shard s (capacity_recomputed s)"
  "conf_written s (capacity_recomputed s) []"
  "mclock_profile (capacity_recomputed s) = mclock_profile s"
  "conf (capacity_recomputed s) = conf s"
  "client_allocs (capacity_recomputed s) = client_allocs s"
  by (simp_all add: capacity_recomputed_def same_shard_def conf_written_def)

lemma set_mclock_profile_frame:
  "same_shard s (set_mclock_profile s)"
  "conf_written s (set_mclock_profile s) []"
  "mclock_profile (set_mclock_profile s) = get_val_string (conf s) osd_mclock_profile"
  "conf (set_mclock_profile s) = conf s"
  by (simp_all add: set_mclock_profile_def same_shard_def conf_written_def)

lemma published_frame:
  "same_shard s (set_profile_config (allocations_recomputed s))"
  "\<exists>ws. conf_written s (set_profile_config (allocations_recomputed s)) ws"
  "mclock_profile (set_profile_config (allocations_recomputed s)) = mclock_profile s"
  "get_val_string (conf (set_profile_config (allocations_recomputed s))) =
     get_val_string (conf s)"
proof -
  let ?a = "allocations_recomputed s"
  show "same_shard s (set_profile_config ?a)"
    by (simp add: set_profile_config_eq allocations_recomputed_def same_shard_def)
  show "mclock_profile (set_profile_config ?a) = mclock_profile s"
    by (simp add: set_profile_config_eq allocations_recomputed_def)
  show "get_val_string (conf (set_profile_config ?a)) = get_val_string (conf s)"
    by (simp add: set_profile_config_eq allocations_recomputed_def store_defaults_string
        fun_eq_iff)
  show "\<exists>ws. conf_written s (set_profile_config ?a) ws"
  proof (cases "shard_id s > 0")
    case True
    then have "conf_written s (set_profile_config ?a) []"
      by (simp add: set_profile_config_eq allocations_recomputed_def conf_written_def)
    then show ?thesis ..
  next
    case False
    then have "conf_written s (set_profile_config ?a)
        (default_calls (profile_defaults ?a) @ [apply_changes])"
      using default_calls_conf_write [of "profile_defaults ?a"]
      by (simp add: set_profile_config_eq allocations_recomputed_def conf_written_def)
    then show ?thesis ..
  qed
qed

text \<open>Each part, for a scheduler whose profile has one of the four names.\<close>

lemma iops_part_custom:
  assumes "osd_mclock_max_capacity_iops_hdd \<in> changed \<or>
           osd_mclock_max_capacity_iops_ssd \<in> changed"
    and "mclock_profile s = ''custom''"
  shows "iops_part changed s =
     Inr (client_registry_update_from_config (capacity_recomputed s))"
  using assms
  by (simp add: iops_part_def capacity_recomputed_eq capacity_recomputed_frame and_then_def)

lemma iops_part_built_in:
  assumes "osd_mclock_max_capacity_iops_hdd \<in> changed \<or>
           osd_mclock_max_capacity_iops_ssd \<in> changed"
    and "mclock_profile s \<in> built_in_profiles"
  shows "iops_part changed s =
     Inr (client_registry_update_from_config
            (set_profile_config (allocations_recomputed (capacity_recomputed s))))"
proof -
  have p: "mclock_profile (capacity_recomputed s) \<in> built_in_profiles"
    using assms(2) by (simp add: capacity_recomputed_frame)
  show ?thesis
    using assms(1) built_in_not_custom [OF p]
    by (simp add: iops_part_def capacity_recomputed_eq enable_built_in [OF p] and_then_def)
qed

lemma iops_part_frame:
  assumes "mclock_profile s \<in> profile_names"
  shows "\<exists>s3 ws. iops_part changed s = Inr s3 \<and> same_shard s s3 \<and> conf_written s s3 ws \<and>
     mclock_profile s3 = mclock_profile s \<and>
     get_val_string (conf s3) = get_val_string (conf s)"
proof (cases "osd_mclock_max_capacity_iops_hdd \<in> changed \<or>
    osd_mclock_max_capacity_iops_ssd \<in> changed")
  case False
  then have "iops_part changed s = Inr s"
    by (simp add: iops_part_def)
  then show ?thesis
    using same_shard_refl conf_written_refl by blast
next
  case True
  let ?c = "capacity_recomputed s"
  show ?thesis
  proof (cases "mclock_profile s = ''custom''")
    case True
    let ?t = "client_registry_update_from_config ?c"
    have "iops_part changed s = Inr ?t"
      using \<open>osd_mclock_max_capacity_iops_hdd \<in> changed \<or> _\<close> True by (rule iops_part_custom)
    moreover have "same_shard s ?t" "conf_written s ?t []" "mclock_profile ?t = mclock_profile s"
      "get_val_string (conf ?t) = get_val_string (conf s)"
      by (simp_all add: client_registry_update_from_config_def capacity_recomputed_def
          same_shard_def conf_written_def)
    ultimately show ?thesis by blast
  next
    case False
    with assms have b: "mclock_profile s \<in> built_in_profiles"
      by (simp add: profile_names_cases)
    let ?p = "set_profile_config (allocations_recomputed ?c)"
    let ?t = "client_registry_update_from_config ?p"
    have r: "iops_part changed s = Inr ?t"
      using \<open>osd_mclock_max_capacity_iops_hdd \<in> changed \<or> _\<close> b by (rule iops_part_built_in)
    obtain ws where ws: "conf_written ?c ?p ws"
      using published_frame(2) [of ?c] ..
    have "same_shard s ?t"
      using published_frame(1) [of ?c]
      by (simp add: same_shard_def client_registry_update_from_config_def
          capacity_recomputed_def)
    moreover have "conf_written s ?t ws"
      using ws
      by (simp add: conf_written_def client_registry_update_from_config_def
          capacity_recomputed_def)
    moreover have "mclock_profile ?t = mclock_profile s"
      using published_frame(3) [of ?c]
      by (simp add: client_registry_update_from_config_def capacity_recomputed_def)
    moreover have "get_val_string (conf ?t) = get_val_string (conf s)"
      using published_frame(4) [of ?c]
      by (simp add: client_registry_update_from_config_def capacity_recomputed_def)
    ultimately show ?thesis
      using r by blast
  qed
qed

lemma bandwidth_part_frame:
  "same_shard s (bandwidth_part changed s)"
  "conf_written s (bandwidth_part changed s) []"
  "mclock_profile (bandwidth_part changed s) = mclock_profile s"
  "conf (bandwidth_part changed s) = conf s"
  "client_allocs (bandwidth_part changed s) = client_allocs s"
  by (simp_all add: bandwidth_part_def capacity_recomputed_eq capacity_recomputed_def
      client_registry_update_from_config_def same_shard_def conf_written_def)

lemma profile_part_frame:
  assumes "profile_in_force changed s \<in> profile_names"
  shows "\<exists>s7 ws. profile_part changed s = Inr s7 \<and> same_shard s s7 \<and> conf_written s s7 ws \<and>
     mclock_profile s7 = profile_in_force changed s"
proof (cases "osd_mclock_profile \<in> changed")
  case False
  then have "profile_part changed s = Inr s" "profile_in_force changed s = mclock_profile s"
    by (simp_all add: profile_part_def profile_in_force_def)
  then show ?thesis
    using same_shard_refl conf_written_refl by metis
next
  case True
  let ?n = "set_mclock_profile s"
  have f: "profile_in_force changed s = mclock_profile ?n"
    using True by (simp add: profile_in_force_def set_mclock_profile_frame)
  show ?thesis
  proof (cases "mclock_profile ?n = ''custom''")
    case c: True
    have "profile_part changed s = Inr ?n"
      using True c by (simp add: profile_part_def)
    moreover have "same_shard s ?n" "conf_written s ?n []"
      by (rule set_mclock_profile_frame)+
    ultimately show ?thesis
      using f by metis
  next
    case False
    with assms f have b: "mclock_profile ?n \<in> built_in_profiles"
      by (simp add: profile_names_cases)
    let ?p = "set_profile_config (allocations_recomputed ?n)"
    let ?t = "client_registry_update_from_config ?p"
    have r: "profile_part changed s = Inr ?t"
      using True False by (simp add: profile_part_def enable_built_in [OF b] and_then_def)
    obtain ws where ws: "conf_written ?n ?p ws"
      using published_frame(2) [of ?n] ..
    have "same_shard s ?t"
      using published_frame(1) [of ?n]
      by (simp add: same_shard_def client_registry_update_from_config_def
          set_mclock_profile_def)
    moreover have "conf_written s ?t ws"
      using ws
      by (simp add: conf_written_def client_registry_update_from_config_def
          set_mclock_profile_def)
    moreover have "mclock_profile ?t = profile_in_force changed s"
      using published_frame(3) [of ?n] f
      by (simp add: client_registry_update_from_config_def)
    ultimately show ?thesis
      using r by blast
  qed
qed

lemma qos_part_eq:
  "qos_part changed built s =
     (case get_changed_key changed of
        None \<Rightarrow> (built, s)
      | Some key \<Rightarrow>
          if mclock_profile s = ''custom''
          then (built, client_registry_update_from_config s)
          else if shard_id s = 0 \<and> monc s
          then (Some (osds_whoami built s),
                s\<lparr>calls := calls s @
                    [remove_request ''osd'' key,
                     remove_request (''osd.'' @ to_string (osds_whoami built s)) key]\<rparr>)
          else (built, s))"
  by (cases "get_changed_key changed") (auto simp: qos_part_def remove_keys_eq)

lemma get_changed_key_first:
  assumes "changed \<inter> set qos_params \<noteq> {}"
  shows "\<exists>i < length qos_params. get_changed_key changed = Some (qos_params ! i) \<and>
     qos_params ! i \<in> changed \<and> (\<forall>j < i. qos_params ! j \<notin> changed)"
proof -
  from assms obtain key where "get_changed_key changed = Some key"
    by (cases "get_changed_key changed") (auto simp: get_changed_key_def find_None_iff)
  then show ?thesis
    unfolding get_changed_key_def find_Some_iff by auto
qed

lemma get_changed_key_without_bandwidth:
  "get_changed_key
     (changed - {osd_mclock_max_sequential_bandwidth_hdd,
                 osd_mclock_max_sequential_bandwidth_ssd}) =
     get_changed_key changed"
  unfolding get_changed_key_def
  using other_keys_not_qos by (intro find_cong) auto

subsection \<open>Reactions to a change of capacity\<close>

lemma and_then_Inr: "and_then (Inr x) f = f x"
  by (simp add: and_then_def)

lemma and_then_assoc: "and_then (and_then r f) g = and_then r (\<lambda>x. and_then (f x) g)"
  by (cases r) (simp_all add: and_then_def)

lemma handle_conf_change_nothing: "handle_conf_change {} (built, s) = Inr (built, s)"
  by (simp add: handle_conf_change_parts iops_part_def bandwidth_part_def profile_part_def
      qos_part_def and_then_def get_changed_key_def qos_params_def)

lemma parts_without_iops:
  "iops_part (changed - {osd_mclock_max_capacity_iops_hdd, osd_mclock_max_capacity_iops_ssd}) s =
     Inr s"
  "bandwidth_part (changed - {osd_mclock_max_capacity_iops_hdd, osd_mclock_max_capacity_iops_ssd}) =
     bandwidth_part changed"
  "profile_part (changed - {osd_mclock_max_capacity_iops_hdd, osd_mclock_max_capacity_iops_ssd}) =
     profile_part changed"
  "qos_part (changed - {osd_mclock_max_capacity_iops_hdd, osd_mclock_max_capacity_iops_ssd}) =
     qos_part changed"
  by (simp_all add: iops_part_def bandwidth_part_def profile_part_def qos_part_def
      get_changed_key_without_iops other_keys_neq fun_eq_iff)

lemma parts_without_bandwidth:
  "bandwidth_part
     (changed - {osd_mclock_max_sequential_bandwidth_hdd,
                 osd_mclock_max_sequential_bandwidth_ssd}) s = s"
  "iops_part
     (changed - {osd_mclock_max_sequential_bandwidth_hdd,
                 osd_mclock_max_sequential_bandwidth_ssd}) = iops_part changed"
  "profile_part
     (changed - {osd_mclock_max_sequential_bandwidth_hdd,
                 osd_mclock_max_sequential_bandwidth_ssd}) = profile_part changed"
  "qos_part
     (changed - {osd_mclock_max_sequential_bandwidth_hdd,
                 osd_mclock_max_sequential_bandwidth_ssd}) = qos_part changed"
  by (simp_all add: iops_part_def bandwidth_part_def profile_part_def qos_part_def
      get_changed_key_without_bandwidth other_keys_neq fun_eq_iff)

lemma rest_after_iops:
  "handle_conf_change
     (changed - {osd_mclock_max_capacity_iops_hdd, osd_mclock_max_capacity_iops_ssd}) (built, s3) =
   and_then (profile_part changed (bandwidth_part changed s3))
     (\<lambda>s7. Inr (qos_part changed built s7))"
  by (simp add: handle_conf_change_parts parts_without_iops and_then_Inr)

lemma iops_then_rest:
  "handle_conf_change changed (built, s) =
     and_then (iops_part changed s)
       (\<lambda>s3. handle_conf_change
          (changed - {osd_mclock_max_capacity_iops_hdd, osd_mclock_max_capacity_iops_ssd})
          (built, s3))"
  unfolding rest_after_iops by (rule handle_conf_change_parts)

lemma iops_keys_alone:
  "handle_conf_change
     (changed \<inter> {osd_mclock_max_capacity_iops_hdd, osd_mclock_max_capacity_iops_ssd}) (built, s) =
   and_then (iops_part changed s) (\<lambda>s3. Inr (built, s3))"
proof -
  let ?c = "changed \<inter> {osd_mclock_max_capacity_iops_hdd, osd_mclock_max_capacity_iops_ssd}"
  have "?c \<inter> set qos_params = {}"
    using other_keys_not_qos by auto
  then have q: "qos_part ?c built t = (built, t)" for t :: "'a mClockScheduler"
    by (simp add: qos_part_def get_changed_key_None)
  have i: "iops_part ?c s = iops_part changed s"
    by (simp add: iops_part_def)
  have b: "bandwidth_part ?c t = t" for t :: "'a mClockScheduler"
    by (simp add: bandwidth_part_def other_keys_neq)
  have p: "profile_part ?c t = Inr t" for t :: "'a mClockScheduler"
    by (simp add: profile_part_def other_keys_neq)
  show ?thesis
    by (simp add: handle_conf_change_parts i b p q and_then_Inr)
qed

lemma rest_after_bandwidth:
  assumes "osd_mclock_max_sequential_bandwidth_hdd \<in> changed \<or>
           osd_mclock_max_sequential_bandwidth_ssd \<in> changed"
  shows "and_then (profile_part changed (bandwidth_part changed s3))
           (\<lambda>s7. Inr (qos_part changed built s7)) =
         handle_conf_change
           (changed - {osd_mclock_max_capacity_iops_hdd, osd_mclock_max_capacity_iops_ssd,
                       osd_mclock_max_sequential_bandwidth_hdd,
                       osd_mclock_max_sequential_bandwidth_ssd})
           (built, client_registry_update_from_config (capacity_recomputed s3))"
proof -
  let ?i = "changed - {osd_mclock_max_capacity_iops_hdd, osd_mclock_max_capacity_iops_ssd}"
  have e: "changed - {osd_mclock_max_capacity_iops_hdd, osd_mclock_max_capacity_iops_ssd,
                      osd_mclock_max_sequential_bandwidth_hdd,
                      osd_mclock_max_sequential_bandwidth_ssd} =
      ?i - {osd_mclock_max_sequential_bandwidth_hdd, osd_mclock_max_sequential_bandwidth_ssd}"
    by auto
  have b: "bandwidth_part changed s3 =
      client_registry_update_from_config (capacity_recomputed s3)"
    using assms by (simp add: bandwidth_part_def capacity_recomputed_eq)
  show ?thesis
    unfolding e b
    by (simp add: handle_conf_change_parts parts_without_bandwidth parts_without_iops
        and_then_Inr)
qed

lemma allocations_fixed:
  assumes "client_allocs t = with_profile_table (mclock_profile t) (client_allocs t)"
  shows "allocations_recomputed t = t"
  unfolding allocations_recomputed_def assms [symmetric] by simp

lemma capacity_recomputed_fixed:
  assumes "osd_bandwidth_cost_per_io t = cost_per_io_from (conf t) (is_rotational t)"
    and "osd_bandwidth_capacity_per_shard t =
           capacity_per_shard_from (conf t) (is_rotational t) (num_shards t)"
  shows "capacity_recomputed t = t"
  unfolding capacity_recomputed_def assms [symmetric] by simp

lemma example_settled:
  "capacity_recomputed (example_on_shard n) = example_on_shard n"
  "allocations_recomputed (example_on_shard n) = example_on_shard n"
  "client_registry_update_from_config (example_on_shard n) = example_on_shard n"
proof -
  let ?m = "set_osd_capacity_params_from_config (example_members n)"
  let ?a = "set_balanced_profile_allocations (set_mclock_profile ?m)"
  have conf: "cost_per_io_from (conf (example_on_shard n)) = cost_per_io_from (conf ?m)"
    "capacity_per_shard_from (conf (example_on_shard n)) = capacity_per_shard_from (conf ?m)"
    by (simp_all add: example_on_shard_def client_registry_update_from_config_def
        set_profile_config_eq set_balanced_profile_allocations_def set_mclock_profile_def
        cost_per_io_from_store_defaults capacity_per_shard_from_store_defaults fun_eq_iff)
  show "capacity_recomputed (example_on_shard n) = example_on_shard n"
  proof (rule capacity_recomputed_fixed)
    show "osd_bandwidth_cost_per_io (example_on_shard n) =
        cost_per_io_from (conf (example_on_shard n)) (is_rotational (example_on_shard n))"
      unfolding conf
      by (simp add: example_on_shard_def client_registry_update_from_config_def
          set_profile_config_eq set_balanced_profile_allocations_def set_mclock_profile_def
          set_osd_capacity_params_from_config_eq)
    show "osd_bandwidth_capacity_per_shard (example_on_shard n) =
        capacity_per_shard_from (conf (example_on_shard n)) (is_rotational (example_on_shard n))
          (num_shards (example_on_shard n))"
      unfolding conf
      by (simp add: example_on_shard_def client_registry_update_from_config_def
          set_profile_config_eq set_balanced_profile_allocations_def set_mclock_profile_def
          set_osd_capacity_params_from_config_eq)
  qed
  show "allocations_recomputed (example_on_shard n) = example_on_shard n"
  proof (rule allocations_fixed)
    have "client_allocs (example_on_shard n) = client_allocs ?a"
      by (simp add: example_on_shard_def client_registry_update_from_config_def
          set_profile_config_client_allocs)
    then show "client_allocs (example_on_shard n) =
        with_profile_table (mclock_profile (example_on_shard n))
          (client_allocs (example_on_shard n))"
      by (simp add: example_fields with_profile_table_def
          set_balanced_profile_allocations_def ClientAllocs_update_def)
  qed
  show "client_registry_update_from_config (example_on_shard n) = example_on_shard n"
    by (simp add: example_on_shard_def refresh_refresh)
qed

text \<open>
  A notification that names an IOPS key, on the shard of identity 1 under the profile
  \<^verbatim>\<open>balanced\<close>: no default is written and nothing is applied; the scheduler is left
  as it was, with no call made.
\<close>

theorem iops_key_publishes_nothing_on_shard_one:
  "mclock_profile (example_on_shard 1) = ''balanced'' \<and>
   shard_id (example_on_shard 1) = 1 \<and>
   calls (example_on_shard 1) = [] \<and>
   handle_conf_change {osd_mclock_max_capacity_iops_hdd} (None, example_on_shard 1) =
     Inr (None, example_on_shard 1) \<and>
   calls_after (handle_conf_change {osd_mclock_max_capacity_iops_hdd} (None, example_on_shard 1)) =
     Some []"
proof -
  let ?s = "example_on_shard 1 :: OpSchedulerItem list mClockScheduler"
  have b: "mclock_profile ?s \<in> built_in_profiles"
    by (simp add: example_fields built_in_profiles_def)
  have p: "set_profile_config ?s = ?s"
    by (simp add: set_profile_config_published example_fields)
  have i: "iops_part {osd_mclock_max_capacity_iops_hdd} ?s = Inr ?s"
    using iops_part_built_in [of "{osd_mclock_max_capacity_iops_hdd}" ?s, OF _ b]
    by (simp add: example_settled p)
  have h: "handle_conf_change {osd_mclock_max_capacity_iops_hdd} (None, ?s) = Inr (None, ?s)"
    unfolding iops_then_rest [of "{osd_mclock_max_capacity_iops_hdd}"] i and_then_Inr
    by (simp add: handle_conf_change_nothing)
  show ?thesis
    unfolding h by (simp add: example_fields example_calls calls_after_def)
qed

lemma iops_reaction_custom:
  assumes "osd_mclock_max_capacity_iops_hdd \<in> changed \<or>
           osd_mclock_max_capacity_iops_ssd \<in> changed"
    and "mclock_profile s = ''custom''"
  shows "handle_conf_change changed (built, s) =
     handle_conf_change
       (changed - {osd_mclock_max_capacity_iops_hdd, osd_mclock_max_capacity_iops_ssd})
       (built, client_registry_update_from_config (capacity_recomputed s))"
  unfolding iops_then_rest [of changed] iops_part_custom [OF assms] and_then_Inr ..

lemma iops_reaction_built_in:
  assumes "osd_mclock_max_capacity_iops_hdd \<in> changed \<or>
           osd_mclock_max_capacity_iops_ssd \<in> changed"
    and "mclock_profile s \<in> built_in_profiles"
  shows "handle_conf_change changed (built, s) =
     handle_conf_change
       (changed - {osd_mclock_max_capacity_iops_hdd, osd_mclock_max_capacity_iops_ssd})
       (built, client_registry_update_from_config
          (set_profile_config (allocations_recomputed (capacity_recomputed s))))"
  unfolding iops_then_rest [of changed] iops_part_built_in [OF assms] and_then_Inr ..

lemma bandwidth_reaction:
  assumes "osd_mclock_max_sequential_bandwidth_hdd \<in> changed \<or>
           osd_mclock_max_sequential_bandwidth_ssd \<in> changed"
  shows "handle_conf_change changed (built, s) =
     and_then
       (handle_conf_change
          (changed \<inter> {osd_mclock_max_capacity_iops_hdd, osd_mclock_max_capacity_iops_ssd})
          (built, s))
       (\<lambda>p. handle_conf_change
          (changed - {osd_mclock_max_capacity_iops_hdd, osd_mclock_max_capacity_iops_ssd,
                      osd_mclock_max_sequential_bandwidth_hdd,
                      osd_mclock_max_sequential_bandwidth_ssd})
          (fst p, client_registry_update_from_config (capacity_recomputed (snd p))))"
  unfolding iops_keys_alone and_then_assoc and_then_Inr fst_conv snd_conv
    rest_after_bandwidth [OF assms, symmetric]
  by (rule handle_conf_change_parts)

text \<open>
  Claim C6, as amended.  In every notification the reaction to the IOPS keys comes
  first and the reaction to the bandwidth keys next, each from the state that it
  finds, and the handling goes on from the state that it leaves as if the
  notification had not named these keys.  The reaction to a bandwidth key recomputes
  the capacity model and refreshes the registry from the configuration and the new
  capacity per shard; allocations, configuration and calls are as they were.  The
  reaction to an IOPS key recomputes the capacity model; under a built-in profile it
  sets the allocations to the table of the profile and, on the shard of identity 0,
  writes the nine defaults and applies them, which on a shard of positive identity it
  does not; under every profile it then refreshes the registry.  A notification that
  names no key changes nothing.
\<close>

theorem capacity_key_reactions:
  fixes s :: "'q mClockScheduler"
  shows
  "(osd_mclock_max_sequential_bandwidth_hdd \<in> changed \<or>
    osd_mclock_max_sequential_bandwidth_ssd \<in> changed \<longrightarrow>
      handle_conf_change changed (built, s) =
        and_then
          (handle_conf_change
             (changed \<inter> {osd_mclock_max_capacity_iops_hdd, osd_mclock_max_capacity_iops_ssd})
             (built, s))
          (\<lambda>p. handle_conf_change
             (changed - {osd_mclock_max_capacity_iops_hdd, osd_mclock_max_capacity_iops_ssd,
                         osd_mclock_max_sequential_bandwidth_hdd,
                         osd_mclock_max_sequential_bandwidth_ssd})
             (fst p,
              let r = capacity_recomputed (snd p)
              in r\<lparr>client_registry :=
                     update_from_config (conf r) (osd_bandwidth_capacity_per_shard r)
                       (client_registry r)\<rparr>))) \<and>
   (osd_mclock_max_capacity_iops_hdd \<in> changed \<or>
    osd_mclock_max_capacity_iops_ssd \<in> changed \<longrightarrow>
      (mclock_profile s = ''custom'' \<longrightarrow>
         handle_conf_change changed (built, s) =
           handle_conf_change
             (changed - {osd_mclock_max_capacity_iops_hdd, osd_mclock_max_capacity_iops_ssd})
             (built,
              let r = capacity_recomputed s
              in r\<lparr>client_registry :=
                     update_from_config (conf r) (osd_bandwidth_capacity_per_shard r)
                       (client_registry r)\<rparr>)) \<and>
      (mclock_profile s \<in> built_in_profiles \<and> shard_id s = 0 \<longrightarrow>
         handle_conf_change changed (built, s) =
           handle_conf_change
             (changed - {osd_mclock_max_capacity_iops_hdd, osd_mclock_max_capacity_iops_ssd})
             (built,
              let r = defaults_published (allocations_recomputed (capacity_recomputed s))
              in r\<lparr>client_registry :=
                     update_from_config (conf r) (osd_bandwidth_capacity_per_shard r)
                       (client_registry r)\<rparr>)) \<and>
      (mclock_profile s \<in> built_in_profiles \<and> 0 < shard_id s \<longrightarrow>
         handle_conf_change changed (built, s) =
           handle_conf_change
             (changed - {osd_mclock_max_capacity_iops_hdd, osd_mclock_max_capacity_iops_ssd})
             (built,
              let r = allocations_recomputed (capacity_recomputed s)
              in r\<lparr>client_registry :=
                     update_from_config (conf r) (osd_bandwidth_capacity_per_shard r)
                       (client_registry r)\<rparr>))) \<and>
   handle_conf_change {} (built, s) = Inr (built, s)"
proof (intro conjI impI)
  assume "osd_mclock_max_sequential_bandwidth_hdd \<in> changed \<or>
    osd_mclock_max_sequential_bandwidth_ssd \<in> changed"
  from bandwidth_reaction [OF this, of built s]
  show "handle_conf_change changed (built, s) =
      and_then
        (handle_conf_change
           (changed \<inter> {osd_mclock_max_capacity_iops_hdd, osd_mclock_max_capacity_iops_ssd})
           (built, s))
        (\<lambda>p. handle_conf_change
           (changed - {osd_mclock_max_capacity_iops_hdd, osd_mclock_max_capacity_iops_ssd,
                       osd_mclock_max_sequential_bandwidth_hdd,
                       osd_mclock_max_sequential_bandwidth_ssd})
           (fst p,
            let r = capacity_recomputed (snd p)
            in r\<lparr>client_registry :=
                   update_from_config (conf r) (osd_bandwidth_capacity_per_shard r)
                     (client_registry r)\<rparr>))"
    by (simp add: client_registry_update_from_config_def Let_def)
next
  assume i: "osd_mclock_max_capacity_iops_hdd \<in> changed \<or>
    osd_mclock_max_capacity_iops_ssd \<in> changed"
  {
    assume "mclock_profile s = ''custom''"
    from iops_reaction_custom [OF i this, of built]
    show "handle_conf_change changed (built, s) =
        handle_conf_change
          (changed - {osd_mclock_max_capacity_iops_hdd, osd_mclock_max_capacity_iops_ssd})
          (built,
           let r = capacity_recomputed s
           in r\<lparr>client_registry :=
                  update_from_config (conf r) (osd_bandwidth_capacity_per_shard r)
                    (client_registry r)\<rparr>)"
      by (simp add: client_registry_update_from_config_def Let_def)
  next
    assume a: "mclock_profile s \<in> built_in_profiles \<and> shard_id s = 0"
    then have "set_profile_config (allocations_recomputed (capacity_recomputed s)) =
        defaults_published (allocations_recomputed (capacity_recomputed s))"
      by (simp add: set_profile_config_published allocations_recomputed_def
          capacity_recomputed_def)
    with iops_reaction_built_in [OF i conjunct1 [OF a], of built]
    show "handle_conf_change changed (built, s) =
        handle_conf_change
          (changed - {osd_mclock_max_capacity_iops_hdd, osd_mclock_max_capacity_iops_ssd})
          (built,
           let r = defaults_published (allocations_recomputed (capacity_recomputed s))
           in r\<lparr>client_registry :=
                  update_from_config (conf r) (osd_bandwidth_capacity_per_shard r)
                    (client_registry r)\<rparr>)"
      by (simp add: client_registry_update_from_config_def Let_def)
  next
    assume a: "mclock_profile s \<in> built_in_profiles \<and> 0 < shard_id s"
    then have "set_profile_config (allocations_recomputed (capacity_recomputed s)) =
        allocations_recomputed (capacity_recomputed s)"
      by (simp add: set_profile_config_published allocations_recomputed_def
          capacity_recomputed_def)
    with iops_reaction_built_in [OF i conjunct1 [OF a], of built]
    show "handle_conf_change changed (built, s) =
        handle_conf_change
          (changed - {osd_mclock_max_capacity_iops_hdd, osd_mclock_max_capacity_iops_ssd})
          (built,
           let r = allocations_recomputed (capacity_recomputed s)
           in r\<lparr>client_registry :=
                  update_from_config (conf r) (osd_bandwidth_capacity_per_shard r)
                    (client_registry r)\<rparr>)"
      by (simp add: client_registry_update_from_config_def Let_def)
  }
next
  show "handle_conf_change {} (built, s) = Inr (built, s)"
    by (rule handle_conf_change_nothing)
qed

lemma double_of_real_400: "double_of_real 400 = 400"
  using double_of_real_nat [of 400] by simp

lemma double_of_real_4: "double_of_real 4 = 4"
  using double_of_real_nat [of 4] by simp

lemma example_conf_eq:
  "conf example_scheduler =
     store_defaults (profile_defaults (set_balanced_profile_allocations s0)) example_conf"
proof -
  have pd: "profile_defaults (set_balanced_profile_allocations t) =
      profile_defaults (set_balanced_profile_allocations s0)"
    for t :: "OpSchedulerItem list mClockScheduler"
    by (simp add: profile_defaults_def set_balanced_profile_allocations_def)
  show ?thesis
    unfolding example_scheduler_def example_on_shard_def
    by (simp add: client_registry_update_from_config_def set_profile_config_eq
        pd [of "set_mclock_profile (set_osd_capacity_params_from_config (example_members 0))"])
      (simp add: set_balanced_profile_allocations_def set_mclock_profile_def
        set_osd_capacity_params_from_config_eq example_members_def)
qed

lemma store_defaults_first:
  assumes "distinct (map fst ((k, of_double x) # kvs))"
  shows "get_val_double (store_defaults ((k, of_double x) # kvs) c) k =
     (case double_override c k of Some v \<Rightarrow> v | None \<Rightarrow> x)"
proof -
  have "k \<notin> fst ` set kvs"
    using assms by auto
  from store_defaults_double [OF this, of "store_default k (of_double x) c"]
  have "get_val_double (store_defaults ((k, of_double x) # kvs) c) k =
      get_val_double (store_default k (of_double x) c) k"
    by (simp add: store_defaults_def)
  also have "\<dots> = (case double_override c k of Some v \<Rightarrow> v | None \<Rightarrow> x)"
    by (simp add: get_val_double_def split: option.split)
  finally show ?thesis .
qed

lemma qos_params_distinct: "distinct qos_params"
  using tracked_keys_distinct unfolding tracked_keys_split by simp

lemma example_client_res:
  "get_val_double (conf example_scheduler) osd_mclock_scheduler_client_res = 0.4"
proof -
  let ?d = "profile_defaults
      (set_balanced_profile_allocations (example_members 0 :: OpSchedulerItem list mClockScheduler))"
  have d: "distinct (map fst ?d)"
    unfolding profile_defaults_keys by (rule qos_params_distinct)
  have h: "?d = (osd_mclock_scheduler_client_res, of_double 0.4) # tl ?d"
    by (simp add: profile_defaults_def set_balanced_profile_allocations_def
        ClientAllocs_update_def)
  have "get_val_double (store_defaults ?d example_conf) osd_mclock_scheduler_client_res =
      (case double_override example_conf osd_mclock_scheduler_client_res of
         Some v \<Rightarrow> v | None \<Rightarrow> 0.4)"
    using d by (subst h, intro store_defaults_first) (subst h [symmetric])
  then show ?thesis
    unfolding example_conf_eq [of "example_members 0"]
    by (simp add: example_conf_def)
qed

lemma doubled_setting_capacity:
  "cost_per_io_from (conf doubled_setting) (is_rotational doubled_setting) = 4"
  "capacity_per_shard_from (conf doubled_setting) (is_rotational doubled_setting)
     (num_shards doubled_setting) = 400"
proof -
  have r: "is_rotational doubled_setting" "num_shards doubled_setting = 1"
    by (simp_all add: doubled_setting_def example_scheduler_def example_fields)
  have b: "bandwidth_capacity (conf doubled_setting) True = 400"
    by (simp add: doubled_setting_def bandwidth_capacity_def get_val_size_def)
  have "get_val_double (conf example_scheduler) osd_mclock_max_capacity_iops_hdd =
      get_val_double example_conf osd_mclock_max_capacity_iops_hdd"
    unfolding example_conf_eq [of "example_members 0"]
    by (rule store_defaults_double)
      (simp add: profile_defaults_keys [unfolded map_map [symmetric] set_map [symmetric]]
        set_map [symmetric] other_keys_not_qos del: set_map)
  moreover have "get_val_double example_conf osd_mclock_max_capacity_iops_hdd = 100"
    by (simp add: get_val_double_def example_conf_def)
  moreover have "get_val_double (conf doubled_setting) = get_val_double (conf example_scheduler)"
    by (simp add: doubled_setting_def get_val_double_def fun_eq_iff split: option.split)
  ultimately have i: "iops_capacity (conf doubled_setting) True = 100"
    by (simp add: iops_capacity_def)
  show "cost_per_io_from (conf doubled_setting) (is_rotational doubled_setting) = 4"
    by (simp add: cost_per_io_from_def r b i double_of_real_400 double_of_real_4)
  show "capacity_per_shard_from (conf doubled_setting) (is_rotational doubled_setting)
      (num_shards doubled_setting) = 400"
    by (simp add: capacity_per_shard_from_def r b double_of_real_400)
qed

lemma example_size: "get_val_size (conf example_scheduler) k = 200"
  unfolding example_conf_eq [of "example_members 0"] store_defaults_size
  by (simp add: get_val_size_def example_conf_def)

lemma example_reservation:
  "reservation (default_external_client_info (client_registry example_scheduler)) = 80"
proof -
  let ?e = "example_scheduler :: OpSchedulerItem list mClockScheduler"
  have "client_registry ?e = client_registry (client_registry_update_from_config ?e)"
    by (simp add: example_scheduler_def example_settled)
  also have "\<dots> = update_from_config (conf ?e) 200 (client_registry ?e)"
    by (simp add: client_registry_update_from_config_def example_scheduler_def
        example_capacity)
  finally have "client_registry ?e = update_from_config (conf ?e) 200 (client_registry ?e)" .
  then have "reservation (default_external_client_info (client_registry ?e)) =
      reservation (default_external_client_info
        (update_from_config (conf ?e) 200 (client_registry ?e)))"
    by simp
  also have "\<dots> = 80"
    by (simp add: update_from_config_infos ClientInfo_update_def example_client_res
        get_res_def)
  finally show ?thesis .
qed

lemma custom_scheduler_fields:
  "mclock_profile custom_scheduler = ''custom''"
  "calls custom_scheduler = calls example_scheduler"
  "client_registry custom_scheduler = client_registry example_scheduler"
  "get_val_double (conf custom_scheduler) osd_mclock_scheduler_client_res = 1 / 4"
  "capacity_per_shard_from (conf custom_scheduler) (is_rotational custom_scheduler)
     (num_shards custom_scheduler) = 200"
proof -
  show "mclock_profile custom_scheduler = ''custom''"
    "calls custom_scheduler = calls example_scheduler"
    "client_registry custom_scheduler = client_registry example_scheduler"
    by (simp_all add: custom_scheduler_def)
  show "get_val_double (conf custom_scheduler) osd_mclock_scheduler_client_res = 1 / 4"
    by (simp add: custom_scheduler_def get_val_double_def)
  have "bandwidth_capacity (conf custom_scheduler) (is_rotational custom_scheduler) = 200"
    using example_size by (simp add: custom_scheduler_def bandwidth_capacity_def get_val_size_def)
  moreover have "num_shards custom_scheduler = 1"
    by (simp add: custom_scheduler_def example_scheduler_def example_fields)
  ultimately show "capacity_per_shard_from (conf custom_scheduler)
      (is_rotational custom_scheduler) (num_shards custom_scheduler) = 200"
    by (simp add: capacity_per_shard_from_def double_of_real_200)
qed

lemma uneven_setting_fields:
  "mclock_profile uneven_setting = ''balanced''"
  "shard_id uneven_setting = 0"
  "calls uneven_setting = calls example_scheduler"
  by (simp_all add: uneven_setting_def example_scheduler_def example_fields)

lemma table_defaults:
  "default_calls (profile_defaults (allocations_recomputed s)) =
     (if mclock_profile s = ''balanced'' then
        [set_val_default osd_mclock_scheduler_client_res (of_double 0.4),
         set_val_default osd_mclock_scheduler_client_wgt (of_uint64 1),
         set_val_default osd_mclock_scheduler_client_lim (of_double 1.0),
         set_val_default osd_mclock_scheduler_background_recovery_res (of_double 0.4),
         set_val_default osd_mclock_scheduler_background_recovery_wgt (of_uint64 1),
         set_val_default osd_mclock_scheduler_background_recovery_lim (of_double 0.7),
         set_val_default osd_mclock_scheduler_background_best_effort_res (of_double 0.2),
         set_val_default osd_mclock_scheduler_background_best_effort_wgt (of_uint64 1),
         set_val_default osd_mclock_scheduler_background_best_effort_lim (of_double 0)]
      else default_calls (profile_defaults (allocations_recomputed s)))"
  by (simp add: default_calls_def profile_defaults_def allocations_recomputed_def
      with_profile_table_def uint64_of_double_def)

theorem capacity_key_reactions_witness:
  "osd_mclock_max_sequential_bandwidth_hdd \<in> {osd_mclock_max_sequential_bandwidth_hdd} \<and>
   reservation (default_external_client_info (client_registry doubled_setting)) = 80 \<and>
   (\<exists>t. handle_conf_change {osd_mclock_max_sequential_bandwidth_hdd} (None, doubled_setting) =
           Inr (None, t) \<and>
        osd_bandwidth_cost_per_io t = 4 \<and>
        osd_bandwidth_capacity_per_shard t = 400 \<and>
        reservation (default_external_client_info (client_registry t)) = 160 \<and>
        client_allocs t = client_allocs doubled_setting \<and>
        conf t = conf doubled_setting \<and>
        calls t = calls doubled_setting) \<and>
   osd_mclock_max_capacity_iops_hdd \<in> {osd_mclock_max_capacity_iops_hdd} \<and>
   mclock_profile custom_scheduler = ''custom'' \<and>
   reservation (default_external_client_info (client_registry custom_scheduler)) = 80 \<and>
   (\<exists>t. handle_conf_change {osd_mclock_max_capacity_iops_hdd} (None, custom_scheduler) =
           Inr (None, t) \<and>
        reservation (default_external_client_info (client_registry t)) = 50 \<and>
        calls t = calls custom_scheduler) \<and>
   mclock_profile uneven_setting \<in> built_in_profiles \<and>
   shard_id uneven_setting = 0 \<and>
   (\<exists>t. handle_conf_change {osd_mclock_max_capacity_iops_hdd} (None, uneven_setting) =
           Inr (None, t) \<and>
        osd_bandwidth_cost_per_io t = 125 \<and>
        calls t =
          calls uneven_setting @
          [set_val_default osd_mclock_scheduler_client_res (of_double 0.4),
           set_val_default osd_mclock_scheduler_client_wgt (of_uint64 1),
           set_val_default osd_mclock_scheduler_client_lim (of_double 1.0),
           set_val_default osd_mclock_scheduler_background_recovery_res (of_double 0.4),
           set_val_default osd_mclock_scheduler_background_recovery_wgt (of_uint64 1),
           set_val_default osd_mclock_scheduler_background_recovery_lim (of_double 0.7),
           set_val_default osd_mclock_scheduler_background_best_effort_res (of_double 0.2),
           set_val_default osd_mclock_scheduler_background_best_effort_wgt (of_uint64 1),
           set_val_default osd_mclock_scheduler_background_best_effort_lim (of_double 0),
           apply_changes]) \<and>
   mclock_profile (example_on_shard 1) \<in> built_in_profiles \<and>
   0 < shard_id (example_on_shard 1) \<and>
   (\<exists>t. handle_conf_change {osd_mclock_max_capacity_iops_hdd} (None, example_on_shard 1) =
           Inr (None, t) \<and>
        client_allocs t op_client = \<lparr>res = 0.4, wgt = 1, lim_frac = 1\<rparr> \<and>
        conf t = conf (example_on_shard 1) \<and>
        calls t = [])"
proof -
  let ?b = "{osd_mclock_max_sequential_bandwidth_hdd}"
  let ?i = "{osd_mclock_max_capacity_iops_hdd}"
  have e1: "?b \<inter> {osd_mclock_max_capacity_iops_hdd, osd_mclock_max_capacity_iops_ssd} = {}"
    by (simp add: other_keys_neq)
  have e2: "?b - {osd_mclock_max_capacity_iops_hdd, osd_mclock_max_capacity_iops_ssd,
                  osd_mclock_max_sequential_bandwidth_hdd,
                  osd_mclock_max_sequential_bandwidth_ssd} = {}"
    by simp
  have e3: "?i - {osd_mclock_max_capacity_iops_hdd, osd_mclock_max_capacity_iops_ssd} = {}"
    by simp
  have n: "handle_conf_change {} (b, t) = Inr (b, t)"
    for b and t :: "OpSchedulerItem list mClockScheduler"
    using capacity_key_reactions [of "{}" b t] by blast
  have g: "get_val_double (conf doubled_setting) = get_val_double (conf example_scheduler)"
    by (simp add: doubled_setting_def get_val_double_def fun_eq_iff split: option.split)
  have a0: "reservation (default_external_client_info (client_registry doubled_setting)) = 80"
    using example_reservation by (simp add: doubled_setting_def)
  have a: "\<exists>t. handle_conf_change ?b (None, doubled_setting) = Inr (None, t) \<and>
      osd_bandwidth_cost_per_io t = 4 \<and>
      osd_bandwidth_capacity_per_shard t = 400 \<and>
      reservation (default_external_client_info (client_registry t)) = 160 \<and>
      client_allocs t = client_allocs doubled_setting \<and>
      conf t = conf doubled_setting \<and>
      calls t = calls doubled_setting"
  proof -
    let ?r = "capacity_recomputed doubled_setting"
    let ?t = "?r\<lparr>client_registry :=
        update_from_config (conf ?r) (osd_bandwidth_capacity_per_shard ?r) (client_registry ?r)\<rparr>"
    have "handle_conf_change ?b (None, doubled_setting) = Inr (None, ?t)"
      using capacity_key_reactions [of ?b None doubled_setting]
      unfolding e1 e2 n and_then_Inr by (simp add: Let_def)
    moreover have "osd_bandwidth_cost_per_io ?t = 4"
      "osd_bandwidth_capacity_per_shard ?t = 400"
      "client_allocs ?t = client_allocs doubled_setting"
      "conf ?t = conf doubled_setting"
      "calls ?t = calls doubled_setting"
      by (simp_all add: capacity_recomputed_def doubled_setting_capacity)
    moreover have "reservation (default_external_client_info (client_registry ?t)) = 160"
      by (simp add: capacity_recomputed_def doubled_setting_capacity update_from_config_infos
          ClientInfo_update_def g example_client_res get_res_def)
    ultimately show ?thesis by blast
  qed
  have b0: "reservation (default_external_client_info (client_registry custom_scheduler)) = 80"
    using example_reservation by (simp add: custom_scheduler_fields)
  have b: "\<exists>t. handle_conf_change ?i (None, custom_scheduler) = Inr (None, t) \<and>
      reservation (default_external_client_info (client_registry t)) = 50 \<and>
      calls t = calls custom_scheduler"
  proof -
    let ?r = "capacity_recomputed custom_scheduler"
    let ?t = "?r\<lparr>client_registry :=
        update_from_config (conf ?r) (osd_bandwidth_capacity_per_shard ?r) (client_registry ?r)\<rparr>"
    have "handle_conf_change ?i (None, custom_scheduler) = Inr (None, ?t)"
      using capacity_key_reactions [of ?i None custom_scheduler] custom_scheduler_fields(1)
      unfolding e3 n by (simp add: Let_def)
    moreover have "calls ?t = calls custom_scheduler"
      by (simp add: capacity_recomputed_def)
    moreover have "reservation (default_external_client_info (client_registry ?t)) = 50"
      by (simp add: capacity_recomputed_def custom_scheduler_fields update_from_config_infos
          ClientInfo_update_def get_res_def)
    ultimately show ?thesis by blast
  qed
  have c0: "mclock_profile uneven_setting \<in> built_in_profiles" "shard_id uneven_setting = 0"
    by (simp_all add: uneven_setting_fields built_in_profiles_def)
  have c: "\<exists>t. handle_conf_change ?i (None, uneven_setting) = Inr (None, t) \<and>
      osd_bandwidth_cost_per_io t = 125 \<and>
      calls t =
        calls uneven_setting @
        [set_val_default osd_mclock_scheduler_client_res (of_double 0.4),
         set_val_default osd_mclock_scheduler_client_wgt (of_uint64 1),
         set_val_default osd_mclock_scheduler_client_lim (of_double 1.0),
         set_val_default osd_mclock_scheduler_background_recovery_res (of_double 0.4),
         set_val_default osd_mclock_scheduler_background_recovery_wgt (of_uint64 1),
         set_val_default osd_mclock_scheduler_background_recovery_lim (of_double 0.7),
         set_val_default osd_mclock_scheduler_background_best_effort_res (of_double 0.2),
         set_val_default osd_mclock_scheduler_background_best_effort_wgt (of_uint64 1),
         set_val_default osd_mclock_scheduler_background_best_effort_lim (of_double 0),
         apply_changes]"
  proof -
    let ?a = "allocations_recomputed (capacity_recomputed uneven_setting)"
    let ?r = "defaults_published ?a"
    let ?t = "?r\<lparr>client_registry :=
        update_from_config (conf ?r) (osd_bandwidth_capacity_per_shard ?r) (client_registry ?r)\<rparr>"
    have "handle_conf_change ?i (None, uneven_setting) = Inr (None, ?t)"
      using capacity_key_reactions [of ?i None uneven_setting] c0
      unfolding e3 n by (simp add: Let_def)
    moreover have "osd_bandwidth_cost_per_io ?t = 125"
      using uneven_capacities(3)
      by (simp add: defaults_published_def allocations_recomputed_def uneven_scheduler_def
          capacity_recomputed_eq)
    moreover have "mclock_profile (capacity_recomputed uneven_setting) = ''balanced''"
      by (simp add: capacity_recomputed_frame uneven_setting_fields)
    then have "default_calls (profile_defaults ?a) =
        [set_val_default osd_mclock_scheduler_client_res (of_double 0.4),
         set_val_default osd_mclock_scheduler_client_wgt (of_uint64 1),
         set_val_default osd_mclock_scheduler_client_lim (of_double 1.0),
         set_val_default osd_mclock_scheduler_background_recovery_res (of_double 0.4),
         set_val_default osd_mclock_scheduler_background_recovery_wgt (of_uint64 1),
         set_val_default osd_mclock_scheduler_background_recovery_lim (of_double 0.7),
         set_val_default osd_mclock_scheduler_background_best_effort_res (of_double 0.2),
         set_val_default osd_mclock_scheduler_background_best_effort_wgt (of_uint64 1),
         set_val_default osd_mclock_scheduler_background_best_effort_lim (of_double 0)]"
      by (subst table_defaults) simp
    then have "calls ?t =
        calls uneven_setting @
        [set_val_default osd_mclock_scheduler_client_res (of_double 0.4),
         set_val_default osd_mclock_scheduler_client_wgt (of_uint64 1),
         set_val_default osd_mclock_scheduler_client_lim (of_double 1.0),
         set_val_default osd_mclock_scheduler_background_recovery_res (of_double 0.4),
         set_val_default osd_mclock_scheduler_background_recovery_wgt (of_uint64 1),
         set_val_default osd_mclock_scheduler_background_recovery_lim (of_double 0.7),
         set_val_default osd_mclock_scheduler_background_best_effort_res (of_double 0.2),
         set_val_default osd_mclock_scheduler_background_best_effort_wgt (of_uint64 1),
         set_val_default osd_mclock_scheduler_background_best_effort_lim (of_double 0),
         apply_changes]"
      by (simp add: defaults_published_def)
        (simp add: allocations_recomputed_def capacity_recomputed_def)
    ultimately show ?thesis by blast
  qed
  have d0: "mclock_profile (example_on_shard 1) \<in> built_in_profiles"
    "0 < shard_id (example_on_shard 1)"
    by (simp_all add: example_fields built_in_profiles_def)
  have d: "\<exists>t. handle_conf_change ?i
        (None, example_on_shard 1 :: OpSchedulerItem list mClockScheduler) = Inr (None, t) \<and>
      client_allocs t op_client = \<lparr>res = 0.4, wgt = 1, lim_frac = 1\<rparr> \<and>
      conf t = conf (example_on_shard 1) \<and>
      calls t = []"
  proof -
    let ?s = "example_on_shard 1 :: OpSchedulerItem list mClockScheduler"
    let ?r = "allocations_recomputed (capacity_recomputed ?s)"
    let ?t = "?r\<lparr>client_registry :=
        update_from_config (conf ?r) (osd_bandwidth_capacity_per_shard ?r) (client_registry ?r)\<rparr>"
    have "handle_conf_change ?i (None, ?s) = Inr (None, ?t)"
      using capacity_key_reactions [of ?i None ?s] d0
      unfolding e3 n by (simp add: Let_def)
    moreover have "client_allocs ?t op_client = \<lparr>res = 0.4, wgt = 1, lim_frac = 1\<rparr>"
      by (simp add: allocations_recomputed_def capacity_recomputed_frame example_fields
          with_profile_table_def)
    moreover have "conf ?t = conf ?s" "calls ?t = []"
      by (simp_all add: example_settled example_calls)
    ultimately show ?thesis by blast
  qed
  show ?thesis
    using a0 a b0 b c0 c d0 d custom_scheduler_fields(1) by blast
qed

subsection \<open>Manual edits of the QoS keys\<close>

lemma qos_keys_only:
  assumes "osd_mclock_max_capacity_iops_hdd \<notin> changed"
    and "osd_mclock_max_capacity_iops_ssd \<notin> changed"
    and "osd_mclock_max_sequential_bandwidth_hdd \<notin> changed"
    and "osd_mclock_max_sequential_bandwidth_ssd \<notin> changed"
    and "osd_mclock_profile \<notin> changed"
  shows "handle_conf_change changed (built, s) = Inr (qos_part changed built s)"
  using assms
  by (simp add: handle_conf_change_parts iops_part_def bandwidth_part_def profile_part_def
      and_then_Inr)

lemma single_key_only:
  assumes "key \<in> set qos_params"
  shows "handle_conf_change {key} (built, s) = Inr (qos_part {key} built s)"
    and "get_changed_key {key} = Some key"
proof -
  from assms other_keys_not_qos have ne:
    "osd_mclock_max_capacity_iops_hdd \<notin> {key}" "osd_mclock_max_capacity_iops_ssd \<notin> {key}"
    "osd_mclock_max_sequential_bandwidth_hdd \<notin> {key}"
    "osd_mclock_max_sequential_bandwidth_ssd \<notin> {key}" "osd_mclock_profile \<notin> {key}"
    by auto
  show "handle_conf_change {key} (built, s) = Inr (qos_part {key} built s)"
    by (rule qos_keys_only [OF ne])
  show "get_changed_key {key} = Some key"
    using assms by (rule get_changed_key_single)
qed

text \<open>
  A notification that names one of the nine QoS keys and nothing else.  Under a
  profile other than \<^verbatim>\<open>custom\<close>, shard 0 with a monitor client sends exactly two
  requests, which remove that key for \<^verbatim>\<open>osd\<close> and for \<^verbatim>\<open>osd.<n>\<close>, and changes
  nothing else, the registry included; \<open>n\<close> is the \<^verbatim>\<open>whoami\<close> with which the vector
  \<^verbatim>\<open>osds\<close> was built, this scheduler's own if it is the one to build it.  Any other
  shard, or one without a monitor client, changes nothing and sends no request.
  Under \<^verbatim>\<open>custom\<close> the registry is refreshed from the configuration and the capacity
  per shard, and no request is sent.
\<close>

lemma manual_qos_edit_reaction:
  assumes "key \<in> set qos_params"
  shows "mclock_profile s \<noteq> ''custom'' \<and> shard_id s = 0 \<and> monc s \<longrightarrow>
           handle_conf_change {key} (built, s) =
             Inr (Some (osds_whoami built s),
                  s\<lparr>calls := calls s @
                      [remove_request ''osd'' key,
                       remove_request (''osd.'' @ to_string (osds_whoami built s)) key]\<rparr>)"
    and "mclock_profile s \<noteq> ''custom'' \<and> \<not> (shard_id s = 0 \<and> monc s) \<longrightarrow>
           handle_conf_change {key} (built, s) = Inr (built, s)"
    and "mclock_profile s = ''custom'' \<longrightarrow>
           handle_conf_change {key} (built, s) =
             Inr (built,
                  s\<lparr>client_registry :=
                      update_from_config (conf s) (osd_bandwidth_capacity_per_shard s)
                        (client_registry s)\<rparr>)"
    and "osds_whoami None s = whoami s"
    and "osds_whoami (Some w) s = w"
  by (simp_all add: single_key_only [OF assms] qos_part_eq osds_whoami_def
      client_registry_update_from_config_def)

lemma second_scheduler_fields:
  "whoami second_scheduler = 7"
  "shard_id second_scheduler = 0"
  "monc second_scheduler"
  "mclock_profile second_scheduler = ''balanced''"
  by (simp_all add: second_scheduler_def example_scheduler_def example_fields)

text \<open>
  Claim C3.  A notification that names one QoS key, under a profile other than
  \<^verbatim>\<open>custom\<close>, makes shard 0 with a monitor client send exactly two requests that
  remove the key, one for \<^verbatim>\<open>osd\<close> and one for \<^verbatim>\<open>osd.<id>\<close> of this node, without
  refreshing the registry, and makes any other shard, or one without a monitor client,
  send none; under \<^verbatim>\<open>custom\<close> the registry is refreshed and no request is sent.
  The code does all of this (the lemma above) but for the target of the second
  request.  It builds the target as \<^verbatim>\<open>"osd." + std::to_string(whoami)\<close>, but in a
  vector declared \<^verbatim>\<open>static const\<close> inside the function: it is built once in the
  process, by the first scheduler to send such requests, and every scheduler after it
  finds it built.  The example scheduler, of OSD 3, handles the edit of a QoS key
  first; the scheduler of OSD 7 that handles one next in the same process sends its
  second request to \<^verbatim>\<open>osd.3\<close>, not to \<^verbatim>\<open>osd.7\<close>.
\<close>

theorem second_scheduler_addresses_first_osd:
  \<open>handle_conf_change {osd_mclock_scheduler_client_res} (None, example_scheduler) =
     Inr (Some 3,
          example_scheduler\<lparr>calls := calls example_scheduler @
            [start_mon_command
               [''{"prefix": "config rm", "who": "osd", "name": "osd_mclock_scheduler_client_res"}''],
             start_mon_command
               [''{"prefix": "config rm", "who": "osd.3", "name": "osd_mclock_scheduler_client_res"}'']]\<rparr>) \<and>
   whoami second_scheduler = 7 \<and>
   shard_id second_scheduler = 0 \<and>
   monc second_scheduler \<and>
   mclock_profile second_scheduler = ''balanced'' \<and>
   handle_conf_change {osd_mclock_scheduler_client_res} (Some 3, second_scheduler) =
     Inr (Some 3,
          second_scheduler\<lparr>calls := calls second_scheduler @
            [start_mon_command
               [''{"prefix": "config rm", "who": "osd", "name": "osd_mclock_scheduler_client_res"}''],
             start_mon_command
               [''{"prefix": "config rm", "who": "osd.3", "name": "osd_mclock_scheduler_client_res"}'']]\<rparr>)\<close>
proof -
  have k: "osd_mclock_scheduler_client_res \<in> set qos_params"
    by (simp add: qos_params_def)
  have three: "to_string 3 = ''3''"
    by (simp add: to_string_def to_string_nat.simps)
  have e: "mclock_profile example_scheduler \<noteq> ''custom'' \<and>
      shard_id example_scheduler = 0 \<and> monc example_scheduler"
    "whoami example_scheduler = 3"
    by (simp_all add: example_scheduler_def example_fields)
  have s: "mclock_profile second_scheduler \<noteq> ''custom'' \<and>
      shard_id second_scheduler = 0 \<and> monc second_scheduler"
    by (simp add: second_scheduler_fields)
  have r: \<open>remove_request ''osd'' osd_mclock_scheduler_client_res =
      start_mon_command
        [''{"prefix": "config rm", "who": "osd", "name": "osd_mclock_scheduler_client_res"}'']\<close>
    \<open>remove_request ''osd.3'' osd_mclock_scheduler_client_res =
      start_mon_command
        [''{"prefix": "config rm", "who": "osd.3", "name": "osd_mclock_scheduler_client_res"}'']\<close>
    by (simp_all add: remove_request_def osd_mclock_scheduler_client_res_def)
  have first: "handle_conf_change {osd_mclock_scheduler_client_res} (None, example_scheduler) =
      Inr (Some 3,
           example_scheduler\<lparr>calls := calls example_scheduler @
             [remove_request ''osd'' osd_mclock_scheduler_client_res,
              remove_request ''osd.3'' osd_mclock_scheduler_client_res]\<rparr>)"
    using manual_qos_edit_reaction(1) [OF k, of example_scheduler None] e
    by (simp add: osds_whoami_def three)
  have second: "handle_conf_change {osd_mclock_scheduler_client_res} (Some 3, second_scheduler) =
      Inr (Some 3,
           second_scheduler\<lparr>calls := calls second_scheduler @
             [remove_request ''osd'' osd_mclock_scheduler_client_res,
              remove_request ''osd.3'' osd_mclock_scheduler_client_res]\<rparr>)"
    using manual_qos_edit_reaction(1) [OF k, of second_scheduler "Some 3"] s
    by (simp add: osds_whoami_def three)
  show ?thesis
    unfolding first second r by (simp add: second_scheduler_fields)
qed

subsection \<open>The name of the profile\<close>

text \<open>
  The profile of a scheduler has one of the four names: the constructor returns with
  no other, and a notification that is handled leaves no other.
\<close>

lemma enable_returns_named:
  assumes "enable_mclock_profile_settings s = Inr t"
  shows "mclock_profile s \<in> profile_names" and "mclock_profile t = mclock_profile s"
proof -
  show n: "mclock_profile s \<in> profile_names"
    using assms enable_invalid [of s] by (cases "mclock_profile s \<in> profile_names") simp_all
  show "mclock_profile t = mclock_profile s"
  proof (cases "mclock_profile s = ''custom''")
    case True
    with assms show ?thesis
      by (simp add: enable_mclock_profile_settings_def)
  next
    case False
    with n have b: "mclock_profile s \<in> built_in_profiles"
      by (simp add: profile_names_cases)
    from assms show ?thesis
      unfolding enable_built_in [OF b] using published_frame(3) [of s] by auto
  qed
qed

lemma constructed_profile_named:
  assumes "mClockScheduler_new c w n sh r m allocs0 reg0 q0 = Inr s"
  shows "mclock_profile s \<in> profile_names"
proof -
  let ?s0 = "\<lparr>whoami = w, num_shards = n, shard_id = sh, is_rotational = r, monc = m,
      conf = c, mclock_profile = [], client_allocs = allocs0,
      osd_bandwidth_cost_per_io = 0, osd_bandwidth_capacity_per_shard = 0,
      client_registry = reg0, immediate = [], scheduler = q0, calls = []\<rparr>"
  let ?p = "set_mclock_profile (set_osd_capacity_params_from_config ?s0)"
  from assms obtain t where t: "enable_mclock_profile_settings ?p = Inr t"
      "s = client_registry_update_from_config t"
    by (cases "enable_mclock_profile_settings ?p")
      (auto simp: mClockScheduler_new_def Let_def and_then_def split: if_splits)
  from enable_returns_named [OF t(1)] show ?thesis
    by (simp add: t(2) client_registry_update_from_config_def)
qed

lemma handled_profile_named:
  assumes "mclock_profile s \<in> profile_names"
    and "handle_conf_change changed (built, s) = Inr (built', s')"
  shows "mclock_profile s' \<in> profile_names"
proof -
  from iops_part_frame [OF assms(1), of changed]
  obtain s3 where s3: "iops_part changed s = Inr s3" "mclock_profile s3 = mclock_profile s"
    by blast
  let ?s4 = "bandwidth_part changed s3"
  from assms(2) obtain s7 where s7: "profile_part changed ?s4 = Inr s7"
      "(built', s') = qos_part changed built s7"
    by (cases "profile_part changed ?s4")
      (auto simp: handle_conf_change_parts s3(1) and_then_def)
  have "mclock_profile s7 \<in> profile_names"
  proof (cases "osd_mclock_profile \<in> changed")
    case False
    with s7(1) have "s7 = ?s4"
      by (simp add: profile_part_def)
    then show ?thesis
      using assms(1) by (simp add: bandwidth_part_frame s3(2))
  next
    case True
    let ?n = "set_mclock_profile ?s4"
    show ?thesis
    proof (cases "mclock_profile ?n = ''custom''")
      case c: True
      with True s7(1) have "s7 = ?n"
        by (simp add: profile_part_def)
      with c show ?thesis
        by (simp add: profile_names_def)
    next
      case False
      with True s7(1) obtain s6 where s6: "enable_mclock_profile_settings ?n = Inr s6"
          "s7 = client_registry_update_from_config s6"
        by (cases "enable_mclock_profile_settings ?n")
          (auto simp: profile_part_def and_then_def)
      from enable_returns_named [OF s6(1)] show ?thesis
        by (simp add: s6(2) client_registry_update_from_config_def)
    qed
  qed
  moreover have "mclock_profile (snd (qos_part changed built s7)) = mclock_profile s7"
    by (cases "get_changed_key changed")
      (simp_all add: qos_part_eq client_registry_update_from_config_def)
  ultimately show ?thesis
    using s7(2) [symmetric] by simp
qed

subsection \<open>Several QoS keys in one notification\<close>

text \<open>
  On shard 1 a notification of two QoS keys under the profile \<^verbatim>\<open>balanced\<close> sends no
  request at all, not two.
\<close>

theorem other_shard_sends_nothing:
  "calls_after (handle_conf_change
       {osd_mclock_scheduler_client_res, osd_mclock_scheduler_client_wgt}
       (None, example_on_shard 1)) = Some []"
proof -
  let ?changed = "{osd_mclock_scheduler_client_res, osd_mclock_scheduler_client_wgt}"
  have "?changed \<inter> set get_tracked_conf_keys \<subseteq> set qos_params"
    by (auto simp: qos_params_def)
  note ne = untracked [OF this]
  show ?thesis
    by (simp add: qos_keys_only [OF ne] qos_part_eq calls_after_def example_fields
        example_calls split: option.split)
qed

lemma handled_up_to_qos:
  assumes "mclock_profile s \<in> profile_names"
    and "profile_in_force changed s \<in> profile_names"
  shows "\<exists>s7 ws. handle_conf_change changed (built, s) = Inr (qos_part changed built s7) \<and>
     same_shard s s7 \<and> conf_written s s7 ws \<and> mclock_profile s7 = profile_in_force changed s"
proof -
  from iops_part_frame [OF assms(1), of changed]
  obtain s3 ws1 where s3: "iops_part changed s = Inr s3" "same_shard s s3"
      "conf_written s s3 ws1" "mclock_profile s3 = mclock_profile s"
      "get_val_string (conf s3) = get_val_string (conf s)"
    by blast
  let ?s4 = "bandwidth_part changed s3"
  have f: "profile_in_force changed ?s4 = profile_in_force changed s"
    by (simp add: profile_in_force_def bandwidth_part_frame s3)
  from profile_part_frame [of changed ?s4] assms(2)
  obtain s7 ws2 where s7: "profile_part changed ?s4 = Inr s7" "same_shard ?s4 s7"
      "conf_written ?s4 s7 ws2" "mclock_profile s7 = profile_in_force changed s"
    unfolding f by blast
  have "handle_conf_change changed (built, s) = Inr (qos_part changed built s7)"
    by (simp add: handle_conf_change_parts s3(1) s7(1) and_then_Inr)
  moreover have "same_shard s s7"
    using s3(2) bandwidth_part_frame(1) [of s3 changed] s7(2)
    by (blast intro: same_shard_trans)
  moreover have "conf_written s s7 (ws1 @ ws2)"
    using conf_written_trans [OF conf_written_trans [OF s3(3) bandwidth_part_frame(2)] s7(3)]
    by simp
  ultimately show ?thesis
    using s7(4) by blast
qed

text \<open>
  Claim C10, as amended.  A notification that names at least one QoS key, whatever
  other keys it names, to a scheduler whose profile has one of the four names, when
  the profile in force is a built-in one: the requests sent are those for one key
  only, the first of \<open>qos_params\<close> that changed, and \<open>qos_params\<close> is in the order of
  the claim.  Shard 0 with a monitor client sends exactly the two requests for that
  key, after the writes to the configuration that the other keys of the notification
  bring; any other shard, or one without a monitor client, sends none.
\<close>

theorem several_qos_keys_one_removal:
  assumes "mclock_profile s \<in> profile_names"
    and "profile_in_force changed s \<in> built_in_profiles"
    and "changed \<inter> set qos_params \<noteq> {}"
  shows "qos_params =
           [osd_mclock_scheduler_client_res, osd_mclock_scheduler_client_wgt,
            osd_mclock_scheduler_client_lim, osd_mclock_scheduler_background_recovery_res,
            osd_mclock_scheduler_background_recovery_wgt,
            osd_mclock_scheduler_background_recovery_lim,
            osd_mclock_scheduler_background_best_effort_res,
            osd_mclock_scheduler_background_best_effort_wgt,
            osd_mclock_scheduler_background_best_effort_lim] \<and>
         (\<exists>i ws built' s'.
            i < length qos_params \<and> qos_params ! i \<in> changed \<and>
            (\<forall>j < i. qos_params ! j \<notin> changed) \<and>
            handle_conf_change changed (built, s) = Inr (built', s') \<and>
            list_all conf_write ws \<and>
            calls s' =
              calls s @ ws @
              (if shard_id s = 0 \<and> monc s
               then [remove_request ''osd'' (qos_params ! i),
                     remove_request (''osd.'' @ to_string (osds_whoami built s))
                       (qos_params ! i)]
               else []))"
proof
  show "qos_params =
      [osd_mclock_scheduler_client_res, osd_mclock_scheduler_client_wgt,
       osd_mclock_scheduler_client_lim, osd_mclock_scheduler_background_recovery_res,
       osd_mclock_scheduler_background_recovery_wgt,
       osd_mclock_scheduler_background_recovery_lim,
       osd_mclock_scheduler_background_best_effort_res,
       osd_mclock_scheduler_background_best_effort_wgt,
       osd_mclock_scheduler_background_best_effort_lim]"
    by (simp add: qos_params_def)
next
  from get_changed_key_first [OF assms(3)]
  obtain i where i: "i < length qos_params" "get_changed_key changed = Some (qos_params ! i)"
      "qos_params ! i \<in> changed" "\<forall>j < i. qos_params ! j \<notin> changed"
    by blast
  have "profile_in_force changed s \<in> profile_names"
    using assms(2) by (simp add: profile_names_cases)
  from handled_up_to_qos [OF assms(1) this, of built]
  obtain s7 ws where s7: "handle_conf_change changed (built, s) = Inr (qos_part changed built s7)"
      "same_shard s s7" "conf_written s s7 ws" "mclock_profile s7 = profile_in_force changed s"
    by blast
  have nc: "mclock_profile s7 \<noteq> ''custom''"
    using assms(2) s7(4) by (simp add: built_in_not_custom)
  have id: "shard_id s7 = shard_id s" "monc s7 = monc s" "osds_whoami built s7 = osds_whoami built s"
    using s7(2) by (simp_all add: same_shard_def osds_whoami_def split: option.split)
  have c: "calls s7 = calls s @ ws" "list_all conf_write ws"
    using s7(3) by (simp_all add: conf_written_def)
  let ?rs = "if shard_id s = 0 \<and> monc s
      then [remove_request ''osd'' (qos_params ! i),
            remove_request (''osd.'' @ to_string (osds_whoami built s)) (qos_params ! i)]
      else []"
  have "calls (snd (qos_part changed built s7)) = calls s @ ws @ ?rs"
    by (simp add: qos_part_eq i(2) nc id c)
  with s7(1) c(2) i(1,3,4)
  have "i < length qos_params \<and> qos_params ! i \<in> changed \<and>
      (\<forall>j < i. qos_params ! j \<notin> changed) \<and>
      handle_conf_change changed (built, s) =
        Inr (fst (qos_part changed built s7), snd (qos_part changed built s7)) \<and>
      list_all conf_write ws \<and>
      calls (snd (qos_part changed built s7)) = calls s @ ws @ ?rs"
    by simp
  then show "\<exists>i ws built' s'.
      i < length qos_params \<and> qos_params ! i \<in> changed \<and>
      (\<forall>j < i. qos_params ! j \<notin> changed) \<and>
      handle_conf_change changed (built, s) = Inr (built', s') \<and>
      list_all conf_write ws \<and>
      calls s' =
        calls s @ ws @
        (if shard_id s = 0 \<and> monc s
         then [remove_request ''osd'' (qos_params ! i),
               remove_request (''osd.'' @ to_string (osds_whoami built s)) (qos_params ! i)]
         else [])"
    by blast
qed

lemma doubled_setting_fields:
  "mclock_profile doubled_setting = ''balanced''"
  "shard_id doubled_setting = 0"
  "monc doubled_setting"
  "whoami doubled_setting = 3"
  "calls doubled_setting = calls example_scheduler"
  by (simp_all add: doubled_setting_def example_scheduler_def example_fields)

theorem several_qos_keys_one_removal_witness:
  \<open>mclock_profile doubled_setting \<in> profile_names \<and>
   profile_in_force
     {osd_mclock_max_sequential_bandwidth_hdd, osd_mclock_scheduler_background_recovery_lim,
      osd_mclock_scheduler_client_wgt} doubled_setting \<in> built_in_profiles \<and>
   {osd_mclock_max_sequential_bandwidth_hdd, osd_mclock_scheduler_background_recovery_lim,
    osd_mclock_scheduler_client_wgt} \<inter> set qos_params \<noteq> {} \<and>
   qos_params ! 0 \<notin>
     {osd_mclock_max_sequential_bandwidth_hdd, osd_mclock_scheduler_background_recovery_lim,
      osd_mclock_scheduler_client_wgt} \<and>
   qos_params ! 1 = osd_mclock_scheduler_client_wgt \<and>
   (\<exists>ws built' s'.
      handle_conf_change
        {osd_mclock_max_sequential_bandwidth_hdd, osd_mclock_scheduler_background_recovery_lim,
         osd_mclock_scheduler_client_wgt} (None, doubled_setting) = Inr (built', s') \<and>
      list_all conf_write ws \<and>
      calls s' =
        calls doubled_setting @ ws @
        [start_mon_command
           [''{"prefix": "config rm", "who": "osd", "name": "osd_mclock_scheduler_client_wgt"}''],
         start_mon_command
           [''{"prefix": "config rm", "who": "osd.3", "name": "osd_mclock_scheduler_client_wgt"}'']])\<close>
proof -
  let ?c = "{osd_mclock_max_sequential_bandwidth_hdd,
             osd_mclock_scheduler_background_recovery_lim, osd_mclock_scheduler_client_wgt}"
  have h1: "mclock_profile doubled_setting \<in> profile_names"
    by (simp add: doubled_setting_fields profile_names_def built_in_profiles_def)
  have "osd_mclock_profile \<notin> ?c"
    using tracked_keys_distinct by (auto simp: get_tracked_conf_keys_def)
  then have h2: "profile_in_force ?c doubled_setting \<in> built_in_profiles"
    by (simp add: profile_in_force_def doubled_setting_fields built_in_profiles_def)
  have q1: "qos_params ! 1 = osd_mclock_scheduler_client_wgt"
    and q1': "qos_params ! Suc 0 = osd_mclock_scheduler_client_wgt"
    by (simp_all add: qos_params_def)
  have h3: "?c \<inter> set qos_params \<noteq> {}"
    by (simp add: qos_params_def)
  have q0: "qos_params ! 0 \<notin> ?c"
    using tracked_keys_distinct by (auto simp: get_tracked_conf_keys_def qos_params_def)
  have three: "to_string 3 = ''3''"
    by (simp add: to_string_def to_string_nat.simps)
  have r: \<open>remove_request ''osd'' osd_mclock_scheduler_client_wgt =
      start_mon_command
        [''{"prefix": "config rm", "who": "osd", "name": "osd_mclock_scheduler_client_wgt"}'']\<close>
    \<open>remove_request ''osd.3'' osd_mclock_scheduler_client_wgt =
      start_mon_command
        [''{"prefix": "config rm", "who": "osd.3", "name": "osd_mclock_scheduler_client_wgt"}'']\<close>
    by (simp_all add: remove_request_def osd_mclock_scheduler_client_wgt_def)
  from several_qos_keys_one_removal [OF h1 h2 h3, of None]
  obtain i ws built' s' where i: "qos_params ! i \<in> ?c" "\<forall>j < i. qos_params ! j \<notin> ?c"
    and run: "handle_conf_change ?c (None, doubled_setting) = Inr (built', s')"
      "list_all conf_write ws"
      "calls s' =
         calls doubled_setting @ ws @
         (if shard_id doubled_setting = 0 \<and> monc doubled_setting
          then [remove_request ''osd'' (qos_params ! i),
                remove_request (''osd.'' @ to_string (osds_whoami None doubled_setting))
                  (qos_params ! i)]
          else [])"
    by blast
  have "qos_params ! 1 \<in> ?c"
    unfolding q1 by simp
  with i(2) have "\<not> 1 < i"
    by blast
  moreover have "i \<noteq> 0"
    using i(1) q0 by (cases "i = 0") simp_all
  ultimately have "i = 1"
    by simp
  with run(3) have "calls s' =
      calls doubled_setting @ ws @
      [remove_request ''osd'' osd_mclock_scheduler_client_wgt,
       remove_request ''osd.3'' osd_mclock_scheduler_client_wgt]"
    by (simp add: q1' doubled_setting_fields osds_whoami_def three)
  with run(1,2) have "\<exists>ws built' s'.
      handle_conf_change ?c (None, doubled_setting) = Inr (built', s') \<and>
      list_all conf_write ws \<and>
      calls s' =
        calls doubled_setting @ ws @
        [remove_request ''osd'' osd_mclock_scheduler_client_wgt,
         remove_request ''osd.3'' osd_mclock_scheduler_client_wgt]"
    by blast
  then show ?thesis
    unfolding r using h1 h2 h3 q0 q1 by blast
qed

end
